theory Spec2Isabelle
  imports Main "HOL-Library.Multiset"
begin

section \<open>The gRPC server of grpc-js (\<^verbatim>\<open>packages/grpc-js/src/server.ts\<close>)\<close>

text \<open>
  A shallow embedding of the \<^verbatim>\<open>Server\<close> class. The class fields are the fields of the record
  \<open>server\<close>; every method takes the server and returns it updated. What the class does to
  its collaborators (the channelz registry, the logger, the event loop, the sockets) is
  written into log fields of the same record, in the order the calls are made. Debug
  traces (\<^verbatim>\<open>this.trace\<close>, \<^verbatim>\<open>channelzTrace.addTrace\<close>) carry no behaviour and are left out.
\<close>

subsection \<open>Values\<close>

text \<open>The members of the \<^verbatim>\<open>Status\<close> enumeration of gRPC.\<close>

datatype status =
  OK | CANCELLED | UNKNOWN | INVALID_ARGUMENT | DEADLINE_EXCEEDED | NOT_FOUND
  | ALREADY_EXISTS | PERMISSION_DENIED | RESOURCE_EXHAUSTED | FAILED_PRECONDITION
  | ABORTED | OUT_OF_RANGE | UNIMPLEMENTED | INTERNAL | UNAVAILABLE | DATA_LOSS
  | UNAUTHENTICATED

text \<open>
  The \<^verbatim>\<open>code\<close> property of a thrown value: absent (\<^verbatim>\<open>undefined\<close>), a status number, or
  any other defined value (Node's own errors carry string codes such as
  \<^verbatim>\<open>ERR_HTTP2_INVALID_STREAM\<close>).
\<close>

datatype js_code = CodeUndefined | CodeStatus status | CodeOther string

text \<open>
  A thrown or emitted object, as far as the server reads it: \<^verbatim>\<open>code\<close>, \<^verbatim>\<open>details\<close> and
  \<^verbatim>\<open>message\<close>. The metadata of a status response is always the empty \<^verbatim>\<open>new Metadata()\<close>.
\<close>

record service_error =
  code :: js_code
  details :: "string option"
  message :: "string option"

text \<open>Exceptions the server itself raises with \<^verbatim>\<open>throw new Error(...)\<close> or \<^verbatim>\<open>TypeError\<close>.\<close>

datatype exn = Error string | TypeError string

text \<open>User functions and (de)serialisers are opaque; they are told apart by a number.\<close>

datatype user_fn = UserFn nat
datatype codec = Codec nat

definition getUnimplementedStatusResponse :: "string \<Rightarrow> service_error" where
  "getUnimplementedStatusResponse methodName =
     \<lparr> code = CodeStatus UNIMPLEMENTED,
       details = Some (''The server does not implement the method '' @ methodName),
       message = None \<rparr>"

text \<open>
  The closures \<^verbatim>\<open>getDefaultHandler\<close> returns, each holding the status response it captured;
  \<^verbatim>\<open>Bound f\<close> is \<^verbatim>\<open>implFn.bind(implementation)\<close>.
\<close>

datatype handle_call =
  Bound user_fn
  | DefaultUnary service_error
  | DefaultClientStream service_error
  | DefaultServerStream service_error
  | DefaultBidi service_error

definition getDefaultHandler :: "string \<Rightarrow> string \<Rightarrow> exn + handle_call" where
  "getDefaultHandler handlerType methodName =
     (let unimplementedStatusResponse = getUnimplementedStatusResponse methodName in
      if handlerType = ''unary'' then Inr (DefaultUnary unimplementedStatusResponse)
      else if handlerType = ''clientStream'' then Inr (DefaultClientStream unimplementedStatusResponse)
      else if handlerType = ''serverStream'' then Inr (DefaultServerStream unimplementedStatusResponse)
      else if handlerType = ''bidi'' then Inr (DefaultBidi unimplementedStatusResponse)
      else Inl (Error (''Invalid handlerType '' @ handlerType)))"

text \<open>
  What a call of a handler function does with the call object and the callback it is
  given: the unary and client-streaming defaults run \<^verbatim>\<open>callback(response, null)\<close>, the
  server-streaming and bidi defaults run \<^verbatim>\<open>call.emit('error', response)\<close>; a user function
  is opaque.
\<close>

datatype handler_effect =
  CallbackCalled service_error
  | ErrorEmitted service_error
  | UserCode user_fn

fun invoke :: "handle_call \<Rightarrow> handler_effect" where
  "invoke (Bound f) = UserCode f"
| "invoke (DefaultUnary r) = CallbackCalled r"
| "invoke (DefaultClientStream r) = CallbackCalled r"
| "invoke (DefaultServerStream r) = ErrorEmitted r"
| "invoke (DefaultBidi r) = ErrorEmitted r"

subsection \<open>Server state\<close>

record handler =
  func :: handle_call
  serialize :: codec
  deserialize :: codec
  type :: string
  path :: string

text \<open>One entry of a \<^verbatim>\<open>ServiceDefinition\<close>.\<close>

record method_definition =
  m_path :: string
  requestStream :: bool
  responseStream :: bool
  requestSerialize :: codec
  requestDeserialize :: codec
  responseSerialize :: codec
  responseDeserialize :: codec
  originalName :: "string option"

record call_tracker =
  callsStarted :: nat
  callsSucceeded :: nat
  callsFailed :: nat

record channelz_session_info =
  ref :: nat
  streamTracker :: call_tracker
  messagesSent :: nat
  messagesReceived :: nat

text \<open>
  An entry of \<^verbatim>\<open>http2ServerList\<close>: the socket's \<^verbatim>\<open>listening\<close> flag and the id of its
  channelz socket ref.
\<close>

record listener =
  listening :: bool
  l_channelzRef :: nat

text \<open>Calls into the channelz module, which keeps the registry of refs.\<close>

datatype channelz_ref = ServerRef nat | SocketRef nat

datatype channelz_call =
  RegisterSocket nat
  | RefListenerChild nat
  | UnrefListenerChild nat
  | RefSessionChild nat
  | UnrefSessionChild nat
  | Unregister channelz_ref


text \<open>
  Work handed to the runtime by the two shutdown methods and not yet done: the callback
  given to \<^verbatim>\<open>http2Server.close\<close> (by \<^verbatim>\<open>forceShutdown\<close>, or by the \<^verbatim>\<open>tryShutdown\<close> call
  with the given number) and the \<^verbatim>\<open>maybeCallback\<close> given to \<^verbatim>\<open>session.close\<close>.
\<close>

datatype task =
  ListenerClosed nat "nat option"
  | SessionClosed nat nat

text \<open>A call of a user callback: the one given to \<^verbatim>\<open>bindAsync\<close> or to \<^verbatim>\<open>tryShutdown\<close>.\<close>

datatype callback_call =
  BindCallback nat "exn option" "nat option"
  | ShutdownCallback nat "exn option"

datatype verbosity = DEBUG | INFO | ERROR

text \<open>
  The argument of \<^verbatim>\<open>http2Server.listen\<close>: a host with a port (\<open>None\<close> is a port that is
  \<^verbatim>\<open>undefined\<close>) or a pipe name.
\<close>

datatype listen_arg = ListenTcp string "nat option" | ListenPath string

text \<open>
  The fields of the class come first. \<open>sessions\<close> is the \<^verbatim>\<open>Map\<close> from session objects
  (numbered) to their records, in insertion order. The remaining fields are the closures
  and the runtime around the server. \<open>shutdownCalls\<close> holds, for every \<^verbatim>\<open>tryShutdown\<close> call so
  far, the \<^verbatim>\<open>pendingChecks\<close> counter of its closure and its user callback. \<open>bindCalls\<close> holds,
  for every \<^verbatim>\<open>bindAsync\<close> call that reached the resolver, the port string, the user callback
  and whether \<^verbatim>\<open>onSuccessfulResolution\<close> is still the real listener (it replaces itself by
  a no-op when it runs). \<open>closedSessions\<close> and \<open>destroyedSessions\<close> hold the sessions whose
  \<^verbatim>\<open>closed\<close> property is true and those given to \<^verbatim>\<open>session.destroy\<close>. Then come the calls made
  into channelz and the next free id of its registry, the sockets asked to listen, the
  lines given to \<^verbatim>\<open>logging.log\<close>, the \<^verbatim>\<open>process.nextTick\<close> queue, the user callbacks that have
  run, and the outstanding close callbacks.
\<close>

record server =
  http2ServerList :: "listener list"
  handlers :: "string \<rightharpoonup> handler"
  sessions :: "(nat \<times> channelz_session_info) list"
  started :: bool
  channelzRef :: nat
  callTracker :: call_tracker
  shutdownCalls :: "(int \<times> nat) list"
  bindCalls :: "(string \<times> nat \<times> bool) list"
  closedSessions :: "nat list"
  destroyedSessions :: "nat list"
  channelzCalls :: "channelz_call list"
  nextChannelzId :: nat
  listenLog :: "listen_arg list"
  logs :: "(verbosity \<times> string) list"
  tickQueue :: "callback_call list"
  invoked :: "callback_call list"
  pending :: "task list"

subsection \<open>Handler registry\<close>

definition register ::
  "string \<Rightarrow> handle_call \<Rightarrow> codec \<Rightarrow> codec \<Rightarrow> string \<Rightarrow> server \<Rightarrow> bool \<times> server" where
  "register name h ser deser ty s =
     (if handlers s name \<noteq> None then (False, s)
      else (True, s\<lparr>handlers := (handlers s)(name \<mapsto>
              \<lparr> func = h, serialize = ser, deserialize = deser, type = ty, path = name \<rparr>)\<rparr>))"

definition unregister :: "string \<Rightarrow> server \<Rightarrow> bool \<times> server" where
  "unregister name s = (handlers s name \<noteq> None, s\<lparr>handlers := (handlers s)(name := None)\<rparr>)"

text \<open>The handler type \<^verbatim>\<open>addService\<close> derives from the two streaming flags.\<close>

definition methodType :: "method_definition \<Rightarrow> string" where
  "methodType attrs =
     (if requestStream attrs
      then (if responseStream attrs then ''bidi'' else ''clientStream'')
      else (if responseStream attrs then ''serverStream'' else ''unary''))"

text \<open>
  The lookup of the implementation: \<^verbatim>\<open>implementation[name]\<close>, and when that is
  \<^verbatim>\<open>undefined\<close> and \<^verbatim>\<open>originalName\<close> is a string, \<^verbatim>\<open>implementation[attrs.originalName]\<close>.
\<close>

definition implFn :: "(string \<rightharpoonup> user_fn) \<Rightarrow> string \<Rightarrow> method_definition \<Rightarrow> user_fn option" where
  "implFn implementation name attrs =
     (case implementation name of
        Some f \<Rightarrow> Some f
      | None \<Rightarrow> (case originalName attrs of
                   Some orig \<Rightarrow> implementation orig
                 | None \<Rightarrow> None))"

text \<open>
  The body of the \<^verbatim>\<open>forEach\<close> of \<^verbatim>\<open>addService\<close> for one key. The default handler is built
  from \<^verbatim>\<open>name\<close>, the key of the method in the service definition.
\<close>

definition addMethod ::
  "(string \<rightharpoonup> user_fn) \<Rightarrow> string \<times> method_definition \<Rightarrow> server \<Rightarrow> exn option \<times> server" where
  "addMethod implementation entry s =
     (let name = fst entry; attrs = snd entry; ty = methodType attrs in
      case (case implFn implementation name attrs of
              Some f \<Rightarrow> Inr (Bound f)
            | None \<Rightarrow> getDefaultHandler ty name) of
        Inl e \<Rightarrow> (Some e, s)
      | Inr impl \<Rightarrow>
          (case register (m_path attrs) impl (responseSerialize attrs) (requestDeserialize attrs) ty s of
             (success, s') \<Rightarrow>
               if success = False
               then (Some (Error (''Method handler for '' @ m_path attrs @ '' already provided.'')), s')
               else (None, s')))"

text \<open>\<^verbatim>\<open>serviceKeys.forEach\<close>: an exception ends the loop and leaves the server as it is then.\<close>

fun addMethods ::
  "(string \<rightharpoonup> user_fn) \<Rightarrow> (string \<times> method_definition) list \<Rightarrow> server \<Rightarrow> exn option \<times> server" where
  "addMethods implementation [] s = (None, s)"
| "addMethods implementation (entry # rest) s =
     (case addMethod implementation entry s of
        (Some e, s') \<Rightarrow> (Some e, s')
      | (None, s') \<Rightarrow> addMethods implementation rest s')"

text \<open>
  \<^verbatim>\<open>addService\<close>. An argument is \<open>None\<close> when it is \<^verbatim>\<open>null\<close> or not an object. The service
  definition is the list of its own keys, in the order of \<^verbatim>\<open>Object.keys\<close>, each with its
  attributes; the implementation is its property lookup.
\<close>

definition addService ::
  "(string \<times> method_definition) list option \<Rightarrow> (string \<rightharpoonup> user_fn) option \<Rightarrow> server
     \<Rightarrow> exn option \<times> server" where
  "addService service implementation s =
     (case (service, implementation) of
        (Some svc, Some impl) \<Rightarrow>
          if length svc = 0 then (Some (Error ''Cannot add an empty service to a server''), s)
          else addMethods impl svc s
      | _ \<Rightarrow> (Some (Error ''addService() requires two objects as arguments''), s))"

fun removeMethods :: "(string \<times> method_definition) list \<Rightarrow> server \<Rightarrow> server" where
  "removeMethods [] s = s"
| "removeMethods (entry # rest) s = removeMethods rest (snd (unregister (m_path (snd entry)) s))"

definition removeService :: "(string \<times> method_definition) list option \<Rightarrow> server \<Rightarrow> exn option \<times> server" where
  "removeService service s =
     (case service of
        None \<Rightarrow> (Some (Error ''removeService() requires object as argument''), s)
      | Some svc \<Rightarrow> (None, removeMethods svc s))"

text \<open>A server as the constructor leaves it, with the id channelz gave to its ref.\<close>

definition newServer :: "nat \<Rightarrow> server" where
  "newServer rid =
     \<lparr> http2ServerList = [], handlers = Map.empty, sessions = [], started = False,
       channelzRef = rid,
       callTracker = \<lparr> callsStarted = 0, callsSucceeded = 0, callsFailed = 0 \<rparr>,
       shutdownCalls = [], bindCalls = [], closedSessions = [], destroyedSessions = [],
       channelzCalls = [],
       nextChannelzId = Suc rid, listenLog = [], logs = [], tickQueue = [], invoked = [],
       pending = [] \<rparr>"
subsection \<open>Shutdown\<close>



definition wrappedCallback :: "nat \<Rightarrow> server \<Rightarrow> server" where
  "wrappedCallback callback s =
     s\<lparr> channelzCalls := channelzCalls s @ [Unregister (ServerRef (channelzRef s))],
        invoked := invoked s @ [ShutdownCallback callback None] \<rparr>"









definition shutdownCallbacksInvoked :: "server \<Rightarrow> nat list" where
  "shutdownCallbacksInvoked s =
     concat (map (\<lambda>c. case c of ShutdownCallback cb e \<Rightarrow> [cb] | _ \<Rightarrow> []) (invoked s))"


text \<open>
  The \<^verbatim>\<open>tryShutdown\<close> call an outstanding callback belongs to, and how many callbacks of a
  call are outstanding.
\<close>

fun taskOwner :: "task \<Rightarrow> nat option" where
  "taskOwner (ListenerClosed r who) = who"
| "taskOwner (SessionClosed sid i) = Some i"

definition outstanding :: "server \<Rightarrow> nat \<Rightarrow> nat" where
  "outstanding s i = length (filter (\<lambda>t. taskOwner t = Some i) (pending s))"

text \<open>
  The bookkeeping of \<^verbatim>\<open>tryShutdown\<close> is consistent when the \<^verbatim>\<open>pendingChecks\<close> of every call
  counts its outstanding callbacks, every outstanding callback belongs to a call that was
  made, and the user callbacks that have run are those of the calls with nothing
  outstanding, each once. A new server is consistent.
\<close>

definition consistent :: "server \<Rightarrow> bool" where
  "consistent s \<longleftrightarrow>
     (\<forall>i < length (shutdownCalls s). fst (shutdownCalls s ! i) = int (outstanding s i))
     \<and> (\<forall>t \<in> set (pending s). \<forall>i. taskOwner t = Some i \<longrightarrow> i < length (shutdownCalls s))
     \<and> mset (shutdownCallbacksInvoked s)
         = mset (map snd (filter (\<lambda>c. fst c = 0) (shutdownCalls s)))"


subsection \<open>Binding\<close>

text \<open>A resolved address: host and port, or the path of a pipe.\<close>

datatype subchannel_address = TcpSubchannelAddress string nat | IpcSubchannelAddress string

text \<open>
  The operating system decides whether a socket can listen. It is a parameter of the
  model: from the sockets asked to listen so far and the one asked now, it says
  \<open>ListenError\<close> (the \<^verbatim>\<open>error\<close> event, with its message) or \<open>Listening p\<close> (the \<^verbatim>\<open>listen\<close>
  callback runs; \<open>p\<close> is the port \<^verbatim>\<open>http2Server.address()\<close> then reports for a TCP socket,
  and is not read for a pipe, whose address is its path).
\<close>

datatype listen_outcome = ListenError string | Listening nat

type_synonym os = "listen_arg list \<Rightarrow> listen_arg \<Rightarrow> listen_outcome"

text \<open>What one promise of \<^verbatim>\<open>bindSpecificPort\<close> resolves to: an \<^verbatim>\<open>Error\<close>, or a port that is a
  number or \<^verbatim>\<open>undefined\<close>.\<close>

datatype attempt_result = ResolvedError string | ResolvedValue "nat option"

record bind_result =
  port :: "nat option"
  count :: nat

datatype bind_promise = Fulfilled bind_result | Rejected exn

text \<open>
  The registration of a socket that listens: \<^verbatim>\<open>registerChannelzSocket\<close> gives the next id of
  the registry, the ref becomes a listener child, and the socket joins \<^verbatim>\<open>http2ServerList\<close>.
\<close>

definition addListener :: "server \<Rightarrow> server" where
  "addListener s =
     (let r = nextChannelzId s in
      s\<lparr> nextChannelzId := Suc r,
         channelzCalls := channelzCalls s @ [RegisterSocket r, RefListenerChild r],
         http2ServerList := http2ServerList s @ [\<lparr> listening = True, l_channelzRef = r \<rparr>] \<rparr>)"

text \<open>
  The function \<^verbatim>\<open>bindSpecificPort\<close> maps over the address list. A TCP address is bound with
  \<^verbatim>\<open>portNum\<close> in place of its own port (\<open>specificAddr\<close> is the \<^verbatim>\<open>addr\<close> of the source). The
  promise resolves to the error, or to the port
  of the bound address, or to \<^verbatim>\<open>portNum\<close> when the bound address is a pipe name.
\<close>

fun specificAddr :: "nat option \<Rightarrow> subchannel_address \<Rightarrow> listen_arg" where
  "specificAddr portNum (TcpSubchannelAddress h p) = ListenTcp h portNum"
| "specificAddr portNum (IpcSubchannelAddress pipe) = ListenPath pipe"

definition bindAddress :: "os \<Rightarrow> nat option \<Rightarrow> subchannel_address \<Rightarrow> server \<Rightarrow> attempt_result \<times> server" where
  "bindAddress lsn portNum address s =
     (let addr = specificAddr portNum address;
          s1 = s\<lparr>listenLog := listenLog s @ [addr]\<rparr>
      in case lsn (listenLog s) addr of
           ListenError msg \<Rightarrow> (ResolvedError msg, s1)
         | Listening p \<Rightarrow>
             (ResolvedValue (case addr of ListenTcp h q \<Rightarrow> Some p | ListenPath pipe \<Rightarrow> portNum),
              addListener s1))"

text \<open>
  \<^verbatim>\<open>Promise.all\<close> over the mapped list. The sockets are asked to listen in list order; the
  model also lets them answer in that order.
\<close>

fun bindAddresses ::
  "os \<Rightarrow> nat option \<Rightarrow> subchannel_address list \<Rightarrow> server \<Rightarrow> attempt_result list \<times> server" where
  "bindAddresses lsn portNum [] s = ([], s)"
| "bindAddresses lsn portNum (address # rest) s =
     (case bindAddress lsn portNum address s of
        (r, s1) \<Rightarrow> (case bindAddresses lsn portNum rest s1 of (rs, s2) \<Rightarrow> (r # rs, s2)))"

text \<open>The \<^verbatim>\<open>then\<close> of \<^verbatim>\<open>bindSpecificPort\<close>: count the numbers, throw at one that is not \<^verbatim>\<open>portNum\<close>.\<close>

fun countResults :: "attempt_result list \<Rightarrow> nat option \<Rightarrow> nat \<Rightarrow> exn + nat" where
  "countResults [] portNum n = Inr n"
| "countResults (ResolvedValue (Some r) # rs) portNum n =
     (if Some r \<noteq> portNum
      then Inl (Error ''Invalid state: multiple port numbers added from single address'')
      else countResults rs portNum (n + 1))"
| "countResults (ResolvedValue None # rs) portNum n = countResults rs portNum n"
| "countResults (ResolvedError msg # rs) portNum n = countResults rs portNum n"

definition bindSpecificPort ::
  "os \<Rightarrow> subchannel_address list \<Rightarrow> nat option \<Rightarrow> nat \<Rightarrow> server \<Rightarrow> bind_promise \<times> server" where
  "bindSpecificPort lsn addressList portNum previousCount s =
     (if length addressList = 0
      then (Fulfilled \<lparr> port = portNum, count = previousCount \<rparr>, s)
      else (case bindAddresses lsn portNum addressList s of
              (results, s') \<Rightarrow>
                (case countResults results portNum 0 of
                   Inl e \<Rightarrow> (Rejected e, s')
                 | Inr n \<Rightarrow> (Fulfilled \<lparr> port = portNum, count = n + previousCount \<rparr>, s'))))"

text \<open>
  \<^verbatim>\<open>bindWildcardPort\<close> gives the first address to \<^verbatim>\<open>listen\<close> as it is (\<open>ownAddr\<close>). The bound
  address is read as an \<^verbatim>\<open>AddressInfo\<close>, so the port read from a pipe name is \<^verbatim>\<open>undefined\<close>.
\<close>

fun ownAddr :: "subchannel_address \<Rightarrow> listen_arg" where
  "ownAddr (TcpSubchannelAddress h p) = ListenTcp h (Some p)"
| "ownAddr (IpcSubchannelAddress pipe) = ListenPath pipe"

fun bindWildcardPort :: "os \<Rightarrow> subchannel_address list \<Rightarrow> server \<Rightarrow> bind_promise \<times> server" where
  "bindWildcardPort lsn [] s = (Fulfilled \<lparr> port = Some 0, count = 0 \<rparr>, s)"
| "bindWildcardPort lsn (address # rest) s =
     (let addr = ownAddr address;
          s1 = s\<lparr>listenLog := listenLog s @ [addr]\<rparr>
      in case lsn (listenLog s) addr of
           ListenError msg \<Rightarrow> bindWildcardPort lsn rest s1
         | Listening p \<Rightarrow>
             bindSpecificPort lsn rest
               (case addr of ListenTcp h q \<Rightarrow> Some p | ListenPath pipe \<Rightarrow> None) 1
               (addListener s1))"

text \<open>A number as a template literal prints it: in decimal, without leading zeros.\<close>

definition decimalDigit :: "nat \<Rightarrow> char" where
  "decimalDigit d = ''0123456789'' ! d"

fun string_of_nat :: "nat \<Rightarrow> string" where
  "string_of_nat n =
     (if n < 10 then [decimalDigit n]
      else string_of_nat (n div 10) @ [decimalDigit (n mod 10)])"

declare string_of_nat.simps [simp del]

definition deferredCallback :: "nat \<Rightarrow> exn option \<Rightarrow> nat option \<Rightarrow> server \<Rightarrow> server" where
  "deferredCallback callback error p s = s\<lparr>tickQueue := tickQueue s @ [BindCallback callback error p]\<rparr>"

text \<open>
  The two functions given to \<^verbatim>\<open>bindResultPromise.then\<close>, for a fulfilled and for a rejected
  promise; \<open>totalN\<close> is \<^verbatim>\<open>addressList.length\<close>.
\<close>

definition bindResultReply :: "nat \<Rightarrow> nat \<Rightarrow> bind_promise \<Rightarrow> server \<Rightarrow> server" where
  "bindResultReply callback totalN promise s =
     (let errorString = ''No address added out of total '' @ string_of_nat totalN @ '' resolved'' in
      case promise of
        Fulfilled bindResult \<Rightarrow>
          if count bindResult = 0
          then deferredCallback callback (Some (Error errorString)) (Some 0)
                 (s\<lparr>logs := logs s @ [(ERROR, errorString)]\<rparr>)
          else deferredCallback callback None (port bindResult)
                 (if count bindResult < totalN
                  then s\<lparr>logs := logs s @ [(INFO, ''WARNING Only '' @ string_of_nat (count bindResult)
                                  @ '' addresses added out of total '' @ string_of_nat totalN
                                  @ '' resolved'')]\<rparr>
                  else s)
      | Rejected error \<Rightarrow>
          deferredCallback callback (Some (Error errorString)) (Some 0)
            (s\<lparr>logs := logs s @ [(ERROR, errorString)]\<rparr>))"

text \<open>\<^verbatim>\<open>resolverListener.onSuccessfulResolution\<close> of the \<^verbatim>\<open>bindAsync\<close> call with port string
  \<open>portStr\<close> and user callback \<open>callback\<close>, at its first call.\<close>

definition onSuccessfulResolution ::
  "os \<Rightarrow> string \<Rightarrow> nat \<Rightarrow> subchannel_address list \<Rightarrow> server \<Rightarrow> server" where
  "onSuccessfulResolution lsn portStr callback addressList s =
     (case addressList of
        [] \<Rightarrow> deferredCallback callback
                (Some (Error (''No addresses resolved for port '' @ portStr))) (Some 0) s
      | first # rest \<Rightarrow>
          (case (case first of
                   TcpSubchannelAddress h p \<Rightarrow>
                     if p = 0 then bindWildcardPort lsn addressList s
                     else bindSpecificPort lsn addressList (Some p) 0 s
                 | IpcSubchannelAddress pipe \<Rightarrow> bindSpecificPort lsn addressList (Some 1) 0 s) of
             (promise, s') \<Rightarrow> bindResultReply callback (length addressList) promise s'))"

text \<open>\<^verbatim>\<open>resolverListener.onError\<close>; \<open>d\<close> is \<^verbatim>\<open>error.details\<close>.\<close>

definition onError :: "nat \<Rightarrow> string \<Rightarrow> server \<Rightarrow> server" where
  "onError callback d s = deferredCallback callback (Some (Error d)) (Some 0) s"

text \<open>The arguments of \<^verbatim>\<open>bindAsync\<close> as JavaScript passes them, whatever their declared types.\<close>

datatype port_arg = PortString string | PortNotString
datatype creds_arg = CredsNull | CredsNotInstance | Credentials bool
datatype callback_arg = CallbackFunction nat | CallbackNotFunction

text \<open>
  \<^verbatim>\<open>bindAsync\<close> up to the start of the resolution. \<^verbatim>\<open>parseUri\<close> and \<^verbatim>\<open>mapUriDefaultScheme\<close>
  are parameters (\<open>None\<close> is their \<^verbatim>\<open>null\<close>). The options of the HTTP/2 server do not
  influence what follows and are left out; \<^verbatim>\<open>createResolver\<close> is taken to succeed. The
  resolver answers later, through \<open>bindStep\<close>.
\<close>

definition bindAsync ::
  "(string \<Rightarrow> 'u option) \<Rightarrow> ('u \<Rightarrow> 'u option) \<Rightarrow> port_arg \<Rightarrow> creds_arg \<Rightarrow> callback_arg \<Rightarrow> server
     \<Rightarrow> exn option \<times> server" where
  "bindAsync parseUri mapUriDefaultScheme portA creds callbackA s =
     (if started s = True then (Some (Error ''server is already started''), s)
      else case portA of
        PortNotString \<Rightarrow> (Some (TypeError ''port must be a string''), s)
      | PortString portStr \<Rightarrow>
          (case creds of
             CredsNull \<Rightarrow> (Some (TypeError ''creds must be a ServerCredentials object''), s)
           | CredsNotInstance \<Rightarrow> (Some (TypeError ''creds must be a ServerCredentials object''), s)
           | Credentials secure \<Rightarrow>
               (case callbackA of
                  CallbackNotFunction \<Rightarrow> (Some (TypeError ''callback must be a function''), s)
                | CallbackFunction callback \<Rightarrow>
                    (case parseUri portStr of
                       None \<Rightarrow> (Some (Error (''Could not parse port '' @ [CHR 0x22] @ portStr @ [CHR 0x22])), s)
                     | Some initialPortUri \<Rightarrow>
                         (case mapUriDefaultScheme initialPortUri of
                            None \<Rightarrow> (Some (Error (''Could not get a default scheme for port ''
                                                  @ [CHR 0x22] @ portStr @ [CHR 0x22])), s)
                          | Some portUri \<Rightarrow>
                              (None, s\<lparr>bindCalls := bindCalls s @ [(portStr, callback, True)]\<rparr>))))))"

text \<open>
  What happens after \<^verbatim>\<open>bindAsync\<close> has returned: the resolver of bind call \<open>i\<close> reports
  addresses or an error, or the event loop reaches the \<^verbatim>\<open>process.nextTick\<close> queue and runs
  the callbacks waiting there.
\<close>

datatype bind_event = Resolved nat "subchannel_address list" | ResolveFailed nat string | Tick

fun bindStep :: "os \<Rightarrow> bind_event \<Rightarrow> server \<Rightarrow> server" where
  "bindStep lsn (Resolved i addressList) s =
     (if i < length (bindCalls s)
      then (case bindCalls s ! i of
              (portStr, callback, live) \<Rightarrow>
                if live
                then onSuccessfulResolution lsn portStr callback addressList
                       (s\<lparr>bindCalls := (bindCalls s)[i := (portStr, callback, False)]\<rparr>)
                else s)
      else s)"
| "bindStep lsn (ResolveFailed i d) s =
     (if i < length (bindCalls s)
      then (case bindCalls s ! i of (portStr, callback, live) \<Rightarrow> onError callback d s)
      else s)"
| "bindStep lsn Tick s = s\<lparr>invoked := invoked s @ tickQueue s, tickQueue := []\<rparr>"


text \<open>\<^verbatim>\<open>start\<close>.\<close>

definition start :: "server \<Rightarrow> exn option \<times> server" where
  "start s =
     (if length (http2ServerList s) = 0 \<or> list_all (\<lambda>l. listening l \<noteq> True) (http2ServerList s)
      then (Some (Error ''server must be bound in order to start''), s)
      else if started s = True then (Some (Error ''server is already started''), s)
      else (None, s\<lparr>started := True\<rparr>))"

subsection \<open>Dispatch of a stream\<close>

text \<open>A header of the request: absent, one string, or several.\<close>

datatype header_value = HeaderUndefined | HeaderString string | HeaderList "string list"

text \<open>The \<^verbatim>\<open>stream\<close> event: the session of the stream and the two headers the server reads.\<close>

record stream_request =
  session :: nat
  contentType :: header_value
  pathHeader :: string

text \<open>
  What the collaborators do during the dispatch of one stream: whether the constructor of
  \<^verbatim>\<open>Http2ServerCallStream\<close> or \<^verbatim>\<open>receiveMetadata\<close> throws and what, whether
  \<^verbatim>\<open>receiveUnaryMessage\<close> yields a request, whether the call is cancelled, and whether the
  user's function throws and what.
\<close>

record call_env =
  constructorThrows :: "service_error option"
  receiveMetadataThrows :: "service_error option"
  requestReceived :: bool
  cancelled :: bool
  userThrows :: "service_error option"

text \<open>
  What the handler of the \<^verbatim>\<open>stream\<close> event does to the stream: \<^verbatim>\<open>stream.respond\<close> with an HTTP
  status and \<^verbatim>\<open>endStream\<close>; a handler function run; \<^verbatim>\<open>call.sendError\<close> on a call stream
  built with the given handler (\<open>None\<close> is the call stream built with \<^verbatim>\<open>null\<close>).
\<close>

datatype stream_effect =
  Respond nat bool
  | HandlerRan handler_effect
  | SendError "handler option" service_error

definition HTTP_STATUS_UNSUPPORTED_MEDIA_TYPE :: nat where
  "HTTP_STATUS_UNSUPPORTED_MEDIA_TYPE = 415"

definition startsWith :: "string \<Rightarrow> string \<Rightarrow> bool" where
  "startsWith str pre = (take (length pre) str = pre)"

text \<open>The negation of the test on the content type: it is a string that starts with
  \<^verbatim>\<open>application/grpc\<close>.\<close>

fun grpcContentType :: "header_value \<Rightarrow> bool" where
  "grpcContentType (HeaderString str) = startsWith str ''application/grpc''"
| "grpcContentType _ = False"

definition addCallStarted :: "call_tracker \<Rightarrow> call_tracker" where
  "addCallStarted t = t\<lparr>callsStarted := callsStarted t + 1\<rparr>"

definition addCallFailed :: "call_tracker \<Rightarrow> call_tracker" where
  "addCallFailed t = t\<lparr>callsFailed := callsFailed t + 1\<rparr>"

definition addCallSucceeded :: "call_tracker \<Rightarrow> call_tracker" where
  "addCallSucceeded t = t\<lparr>callsSucceeded := callsSucceeded t + 1\<rparr>"

text \<open>\<^verbatim>\<open>channelzSessionInfo?.streamTracker\<close> changed by \<open>f\<close>: nothing happens when the session
  has no entry in \<open>sessions\<close>.\<close>

definition onSessionTracker :: "nat \<Rightarrow> (call_tracker \<Rightarrow> call_tracker) \<Rightarrow> server \<Rightarrow> server" where
  "onSessionTracker sid f s =
     s\<lparr>sessions := map (\<lambda>entry. if fst entry = sid
                                 then (fst entry, (snd entry)\<lparr>streamTracker := f (streamTracker (snd entry))\<rparr>)
                                 else entry) (sessions s)\<rparr>"

definition onCallTracker :: "(call_tracker \<Rightarrow> call_tracker) \<Rightarrow> server \<Rightarrow> server" where
  "onCallTracker f s = s\<lparr>callTracker := f (callTracker s)\<rparr>"

text \<open>
  The four functions that run a handler. \<^verbatim>\<open>handleUnary\<close> and \<^verbatim>\<open>handleServerStreaming\<close> are
  \<^verbatim>\<open>async\<close>: they throw nothing to their caller, and run the handler function only when a
  request has arrived and the call is not cancelled. The other two run it unless the call
  is cancelled, and what a user's function throws reaches the caller. The result is the
  effects and the value thrown, if any.
\<close>

definition runUser :: "call_env \<Rightarrow> handler \<Rightarrow> service_error option" where
  "runUser env h = (case func h of Bound f \<Rightarrow> userThrows env | _ \<Rightarrow> None)"

definition handleUnary :: "call_env \<Rightarrow> handler \<Rightarrow> stream_effect list \<times> service_error option" where
  "handleUnary env h =
     (if \<not> requestReceived env \<or> cancelled env then ([], None)
      else ([HandlerRan (invoke (func h))], None))"

definition handleClientStreaming :: "call_env \<Rightarrow> handler \<Rightarrow> stream_effect list \<times> service_error option" where
  "handleClientStreaming env h =
     (if cancelled env then ([], None)
      else ([HandlerRan (invoke (func h))], runUser env h))"

definition handleServerStreaming :: "call_env \<Rightarrow> handler \<Rightarrow> stream_effect list \<times> service_error option" where
  "handleServerStreaming env h =
     (if \<not> requestReceived env \<or> cancelled env then ([], None)
      else ([HandlerRan (invoke (func h))], None))"

definition handleBidiStreaming :: "call_env \<Rightarrow> handler \<Rightarrow> stream_effect list \<times> service_error option" where
  "handleBidiStreaming env h =
     (if cancelled env then ([], None)
      else ([HandlerRan (invoke (func h))], runUser env h))"

text \<open>
  The \<^verbatim>\<open>try\<close> block. The result is the effects, the call stream if one was built (with its
  handler) and the value thrown, if any.
\<close>

definition dispatchTry ::
  "call_env \<Rightarrow> string \<Rightarrow> server \<Rightarrow> stream_effect list \<times> handler option \<times> service_error option" where
  "dispatchTry env p s =
     (case handlers s p of
        None \<Rightarrow> ([], None, Some (getUnimplementedStatusResponse p))
      | Some h \<Rightarrow>
          (case constructorThrows env of
             Some e \<Rightarrow> ([], None, Some e)
           | None \<Rightarrow>
               (case receiveMetadataThrows env of
                  Some e \<Rightarrow> ([], Some h, Some e)
                | None \<Rightarrow>
                    (case (if type h = ''unary'' then handleUnary env h
                           else if type h = ''clientStream'' then handleClientStreaming env h
                           else if type h = ''serverStream'' then handleServerStreaming env h
                           else if type h = ''bidi'' then handleBidiStreaming env h
                           else ([], Some \<lparr> code = CodeUndefined, details = None,
                                            message = Some (''Unknown handler type: '' @ type h) \<rparr>)) of
                       (effects, thrown) \<Rightarrow> (effects, Some h, thrown)))))"

text \<open>The \<^verbatim>\<open>catch\<close> block, for the value \<open>err\<close> thrown and the call stream built (if any).\<close>

definition dispatchCatch ::
  "nat \<Rightarrow> handler option \<Rightarrow> service_error \<Rightarrow> server \<Rightarrow> stream_effect list \<times> server" where
  "dispatchCatch sid call err s =
     (let s1 = (case call of
                  None \<Rightarrow> onSessionTracker sid addCallFailed (onCallTracker addCallFailed s)
                | Some h \<Rightarrow> s);
          err1 = (if code err = CodeUndefined then err\<lparr>code := CodeStatus INTERNAL\<rparr> else err)
      in ([SendError call err1], s1))"

text \<open>The listener of the \<^verbatim>\<open>stream\<close> event that \<^verbatim>\<open>_setupHandlers\<close> installs.\<close>

definition onStream :: "call_env \<Rightarrow> stream_request \<Rightarrow> server \<Rightarrow> stream_effect list \<times> server" where
  "onStream env req s =
     (let s1 = onSessionTracker (session req) addCallStarted (onCallTracker addCallStarted s) in
      if \<not> grpcContentType (contentType req)
      then ([Respond HTTP_STATUS_UNSUPPORTED_MEDIA_TYPE True],
            onSessionTracker (session req) addCallFailed (onCallTracker addCallFailed s1))
      else (case dispatchTry env (pathHeader req) s1 of
              (effects, call, None) \<Rightarrow> (effects, s1)
            | (effects, call, Some err) \<Rightarrow>
                (case dispatchCatch (session req) call err s1 of
                   (effects', s2) \<Rightarrow> (effects @ effects', s2))))"

text \<open>
  The listener of the \<^verbatim>\<open>session\<close> event. A session that arrives while the server is not
  started is destroyed. Otherwise it gets a channelz socket ref and a record in \<open>sessions\<close>
  (\<^verbatim>\<open>Map.set\<close>: a key already there keeps its place).
\<close>

definition onSession :: "nat \<Rightarrow> server \<Rightarrow> server" where
  "onSession sid s =
     (if \<not> started s then s\<lparr>destroyedSessions := destroyedSessions s @ [sid]\<rparr>
      else (let r = nextChannelzId s;
                channelzSessionInfo =
                  \<lparr> ref = r,
                    streamTracker = \<lparr> callsStarted = 0, callsSucceeded = 0, callsFailed = 0 \<rparr>,
                    messagesSent = 0, messagesReceived = 0 \<rparr>
            in s\<lparr> nextChannelzId := Suc r,
                  sessions := (if sid \<in> fst ` set (sessions s)
                               then map (\<lambda>entry. if fst entry = sid then (sid, channelzSessionInfo) else entry)
                                      (sessions s)
                               else sessions s @ [(sid, channelzSessionInfo)]),
                  channelzCalls := channelzCalls s @ [RegisterSocket r, RefSessionChild r] \<rparr>))"

text \<open>The listener of the \<^verbatim>\<open>close\<close> event of a session, installed with the session's ref \<open>r\<close>.\<close>

definition onSessionClose :: "nat \<Rightarrow> nat \<Rightarrow> server \<Rightarrow> server" where
  "onSessionClose sid r s =
     s\<lparr> channelzCalls := channelzCalls s @ [UnrefSessionChild r, Unregister (SocketRef r)],
        sessions := filter (\<lambda>entry. fst entry \<noteq> sid) (sessions s) \<rparr>"

fun isHandlerRan :: "stream_effect \<Rightarrow> bool" where
  "isHandlerRan (HandlerRan e) = True"
| "isHandlerRan _ = False"

text \<open>The \<^verbatim>\<open>callsFailed\<close> counter of the stream tracker of a session, when the session has a
  record.\<close>

definition sessionCallsFailed :: "server \<Rightarrow> nat \<Rightarrow> nat option" where
  "sessionCallsFailed s sid = map_option (\<lambda>info. callsFailed (streamTracker info)) (map_of (sessions s) sid)"

subsection \<open>Observations and example data\<close>

text \<open>What a call of the handler function registered for a path does, if there is one.\<close>

definition invokeAt :: "server \<Rightarrow> string \<Rightarrow> handler_effect option" where
  "invokeAt s p = map_option (\<lambda>h. invoke (func h)) (handlers s p)"

text \<open>A unary method \<^verbatim>\<open>/demo.S/Echo\<close>, and a service definition with the one key \<^verbatim>\<open>Echo\<close>.\<close>

definition echoMethod :: method_definition where
  "echoMethod =
     \<lparr> m_path = ''/demo.S/Echo'', requestStream = False, responseStream = False,
       requestSerialize = Codec 0, requestDeserialize = Codec 1,
       responseSerialize = Codec 2, responseDeserialize = Codec 3,
       originalName = None \<rparr>"

definition demoSvc :: "(string \<times> method_definition) list" where
  "demoSvc = [(''Echo'', echoMethod)]"

text \<open>A definition whose two keys have the same path, and one with a bidi method.\<close>

definition clashSvc :: "(string \<times> method_definition) list" where
  "clashSvc = [(''Echo'', echoMethod), (''Again'', echoMethod)]"

definition chatSvc :: "(string \<times> method_definition) list" where
  "chatSvc = [(''Chat'', echoMethod\<lparr> m_path := ''/demo.S/Chat'', requestStream := True,
                                      responseStream := True \<rparr>)]"

text \<open>An operating system on which every socket listens, on port 50051; one on which none
  does; and one on which only \<^verbatim>\<open>127.0.0.1\<close> does.\<close>

definition allListen :: os where
  "allListen history addr = Listening 50051"


definition loopbackListens :: os where
  "loopbackListens history addr =
     (case addr of
        ListenTcp h p \<Rightarrow> if h = ''127.0.0.1'' then Listening 50051 else ListenError ''EADDRNOTAVAIL''
      | ListenPath pipe \<Rightarrow> ListenError ''EACCES'')"

text \<open>A server bound to \<^verbatim>\<open>127.0.0.1:0\<close> and started, with the callback of the bind still in the
  \<^verbatim>\<open>process.nextTick\<close> queue.\<close>

definition boundServer :: server where
  "boundServer =
     bindStep allListen (Resolved 0 [TcpSubchannelAddress ''127.0.0.1'' 0])
       (snd (bindAsync Some Some (PortString ''127.0.0.1:0'') (Credentials False)
               (CallbackFunction 7) (newServer 0)))"

definition startedServer :: server where
  "startedServer = snd (start boundServer)"


text \<open>The started server with the two services implemented by user functions and with one
  session, numbered 3.\<close>

definition servingServer :: server where
  "servingServer =
     onSession 3
       (snd (addService (Some chatSvc) (Some [''Chat'' \<mapsto> UserFn 1])
          (snd (addService (Some demoSvc) (Some [''Echo'' \<mapsto> UserFn 0]) startedServer))))"

text \<open>Collaborators that throw nothing; a user function that throws an \<^verbatim>\<open>Error\<close> without a
  \<^verbatim>\<open>code\<close>; and one that throws an error of Node, whose \<^verbatim>\<open>code\<close> is a string.\<close>

definition calmEnv :: call_env where
  "calmEnv = \<lparr> constructorThrows = None, receiveMetadataThrows = None, requestReceived = True,
                cancelled = False, userThrows = None \<rparr>"

definition plainThrowEnv :: call_env where
  "plainThrowEnv = calmEnv\<lparr> userThrows :=
     Some \<lparr> code = CodeUndefined, details = None, message = Some ''not ready'' \<rparr> \<rparr>"

definition nodeThrowEnv :: call_env where
  "nodeThrowEnv = calmEnv\<lparr> userThrows :=
     Some \<lparr> code = CodeOther ''ERR_STREAM_WRITE_AFTER_END'', details = None,
            message = Some ''write after end'' \<rparr> \<rparr>"

text \<open>Requests on session 3: one with a JSON content type, one for a path nobody registered,
  one for the bidi method.\<close>

definition jsonRequest :: stream_request where
  "jsonRequest = \<lparr> session = 3, contentType = HeaderString ''application/json'',
                    pathHeader = ''/demo.S/Echo'' \<rparr>"

definition missingRequest :: stream_request where
  "missingRequest = \<lparr> session = 3, contentType = HeaderString ''application/grpc'',
                       pathHeader = ''/demo.S/Missing'' \<rparr>"

definition chatRequest :: stream_request where
  "chatRequest = \<lparr> session = 3, contentType = HeaderString ''application/grpc+proto'',
                    pathHeader = ''/demo.S/Chat'' \<rparr>"


section \<open>Properties\<close>

subsection \<open>The handler registry\<close>

lemma getDefaultHandler_methodType:
  "getDefaultHandler (methodType attrs) name =
     Inr ((if requestStream attrs
           then (if responseStream attrs then DefaultBidi else DefaultClientStream)
           else (if responseStream attrs then DefaultServerStream else DefaultUnary))
          (getUnimplementedStatusResponse name))"
  by (simp add: getDefaultHandler_def methodType_def)

text \<open>The handler function \<^verbatim>\<open>addService\<close> chooses for one entry.\<close>

lemma addMethod_cases:
  "addMethod impl entry s =
     (if handlers s (m_path (snd entry)) \<noteq> None
      then (Some (Error (''Method handler for '' @ m_path (snd entry) @ '' already provided.'')), s)
      else (None, snd (register (m_path (snd entry))
                    (case implFn impl (fst entry) (snd entry) of
                       Some f \<Rightarrow> Bound f
                     | None \<Rightarrow> (if requestStream (snd entry)
                                 then (if responseStream (snd entry) then DefaultBidi else DefaultClientStream)
                                 else (if responseStream (snd entry) then DefaultServerStream else DefaultUnary))
                                (getUnimplementedStatusResponse (fst entry)))
                    (responseSerialize (snd entry)) (requestDeserialize (snd entry))
                    (methodType (snd entry)) s)))"
  by (simp add: addMethod_def Let_def getDefaultHandler_methodType register_def split: option.splits)

lemma addMethod_keeps:
  "addMethod impl entry s = (r, s') \<Longrightarrow> handlers s p = Some h \<Longrightarrow> handlers s' p = Some h"
  by (auto simp: addMethod_cases register_def split: if_splits)

lemma addMethods_keeps:
  "addMethods impl svc s = (r, s') \<Longrightarrow> handlers s p = Some h \<Longrightarrow> handlers s' p = Some h"
proof (induction svc arbitrary: s)
  case Nil
  then show ?case by simp
next
  case (Cons entry rest)
  obtain r1 s1 where a: "addMethod impl entry s = (r1, s1)" by (cases "addMethod impl entry s")
  have k: "handlers s1 p = Some h" using addMethod_keeps[OF a Cons.prems(2)] .
  show ?case
  proof (cases r1)
    case None
    with Cons.prems(1) a have "addMethods impl rest s1 = (r, s')" by simp
    from Cons.IH[OF this k] show ?thesis .
  next
    case (Some e)
    with Cons.prems(1) a have "s' = s1" by simp
    with k show ?thesis by simp
  qed
qed


lemma addMethods_registered:
  "addMethods impl svc s = (None, s') \<Longrightarrow> entry \<in> set svc \<Longrightarrow>
     handlers s (m_path (snd entry)) = None \<and>
     handlers s' (m_path (snd entry)) =
       Some \<lparr> func = (case implFn impl (fst entry) (snd entry) of
                        Some f \<Rightarrow> Bound f
                      | None \<Rightarrow> (if requestStream (snd entry)
                                  then (if responseStream (snd entry) then DefaultBidi else DefaultClientStream)
                                  else (if responseStream (snd entry) then DefaultServerStream else DefaultUnary))
                                 (getUnimplementedStatusResponse (fst entry))),
              serialize = responseSerialize (snd entry),
              deserialize = requestDeserialize (snd entry),
              type = methodType (snd entry),
              path = m_path (snd entry) \<rparr>"
proof (induction svc arbitrary: s)
  case Nil
  then show ?case by simp
next
  case (Cons first rest)
  obtain r1 s1 where a: "addMethod impl first s = (r1, s1)" by (cases "addMethod impl first s")
  with Cons.prems(1) have r1: "r1 = None" and rest: "addMethods impl rest s1 = (None, s')"
    by (auto split: option.splits)
  from a r1 have fresh: "handlers s (m_path (snd first)) = None"
    by (auto simp: addMethod_cases split: if_splits)
  show ?case
  proof (cases "entry = first")
    case True
    from a r1 fresh have "handlers s1 (m_path (snd first)) =
       Some \<lparr> func = (case implFn impl (fst first) (snd first) of
                        Some f \<Rightarrow> Bound f
                      | None \<Rightarrow> (if requestStream (snd first)
                                  then (if responseStream (snd first) then DefaultBidi else DefaultClientStream)
                                  else (if responseStream (snd first) then DefaultServerStream else DefaultUnary))
                                 (getUnimplementedStatusResponse (fst first))),
              serialize = responseSerialize (snd first),
              deserialize = requestDeserialize (snd first),
              type = methodType (snd first),
              path = m_path (snd first) \<rparr>"
      by (auto simp: addMethod_cases register_def split: if_splits)
    from addMethods_keeps[OF rest this] fresh show ?thesis unfolding True by simp
  next
    case False
    with Cons.prems(2) have "entry \<in> set rest" by simp
    from Cons.IH[OF rest this] have
      n1: "handlers s1 (m_path (snd entry)) = None" and
      h': "handlers s' (m_path (snd entry)) =
       Some \<lparr> func = (case implFn impl (fst entry) (snd entry) of
                        Some f \<Rightarrow> Bound f
                      | None \<Rightarrow> (if requestStream (snd entry)
                                  then (if responseStream (snd entry) then DefaultBidi else DefaultClientStream)
                                  else (if responseStream (snd entry) then DefaultServerStream else DefaultUnary))
                                 (getUnimplementedStatusResponse (fst entry))),
              serialize = responseSerialize (snd entry),
              deserialize = requestDeserialize (snd entry),
              type = methodType (snd entry),
              path = m_path (snd entry) \<rparr>" by simp_all
    have "handlers s (m_path (snd entry)) = None"
    proof (rule ccontr)
      assume "handlers s (m_path (snd entry)) \<noteq> None"
      then obtain h where "handlers s (m_path (snd entry)) = Some h" by auto
      from addMethod_keeps[OF a this] n1 show False by simp
    qed
    with h' show ?thesis by simp
  qed
qed

lemma addMethods_throws:
  "addMethods impl svc s = (Some e, s') \<Longrightarrow>
     \<exists>pre entry rest. svc = pre @ entry # rest \<and> addMethods impl pre s = (None, s')
        \<and> handlers s' (m_path (snd entry)) \<noteq> None
        \<and> e = Error (''Method handler for '' @ m_path (snd entry) @ '' already provided.'')"
proof (induction svc arbitrary: s)
  case Nil
  then show ?case by simp
next
  case (Cons first rest)
  obtain r1 s1 where a: "addMethod impl first s = (r1, s1)" by (cases "addMethod impl first s")
  show ?case
  proof (cases r1)
    case None
    with Cons.prems a have "addMethods impl rest s1 = (Some e, s')" by simp
    from Cons.IH[OF this] obtain pre entry rest' where
      p: "rest = pre @ entry # rest'" "addMethods impl pre s1 = (None, s')"
         "handlers s' (m_path (snd entry)) \<noteq> None"
         "e = Error (''Method handler for '' @ m_path (snd entry) @ '' already provided.'')"
      by blast
    from p(1) have "first # rest = (first # pre) @ entry # rest'" by simp
    moreover from p(2) a None have "addMethods impl (first # pre) s = (None, s')" by simp
    ultimately show ?thesis using p(3,4) by blast
  next
    case (Some e1)
    with Cons.prems a have es: "e = e1" "s' = s1" by simp_all
    from a Some have "handlers s (m_path (snd first)) \<noteq> None \<and> s1 = s
        \<and> e1 = Error (''Method handler for '' @ m_path (snd first) @ '' already provided.'')"
      by (auto simp: addMethod_cases split: if_splits)
    with es have "first # rest = [] @ first # rest \<and> addMethods impl [] s = (None, s')
        \<and> handlers s' (m_path (snd first)) \<noteq> None
        \<and> e = Error (''Method handler for '' @ m_path (snd first) @ '' already provided.'')"
      by simp
    then show ?thesis by blast
  qed
qed

text \<open>
  C6. \<^verbatim>\<open>register\<close> returns false exactly when the path is already in the handler map; when it
  returns false the server is unchanged; after a call that returned true, a second call
  for the same path returns false and changes nothing.
\<close>

theorem register_no_overwrite:
  "(fst (register p h ser de ty s) = False \<longleftrightarrow> p \<in> dom (handlers s))
   \<and> (fst (register p h ser de ty s) = False \<longrightarrow> snd (register p h ser de ty s) = s)
   \<and> (fst (register p h ser de ty s) = True \<longrightarrow>
        register p h2 ser2 de2 ty2 (snd (register p h ser de ty s))
          = (False, snd (register p h ser de ty s)))"
  by (auto simp: register_def split: if_splits)

theorem register_no_overwrite_witness:
  "fst (register ''/demo.S/Echo'' (Bound (UserFn 0)) (Codec 2) (Codec 1) ''unary'' (newServer 0)) = True
   \<and> register ''/demo.S/Echo'' (Bound (UserFn 5)) (Codec 2) (Codec 1) ''bidi''
        (snd (register ''/demo.S/Echo'' (Bound (UserFn 0)) (Codec 2) (Codec 1) ''unary'' (newServer 0)))
      = (False, snd (register ''/demo.S/Echo'' (Bound (UserFn 0)) (Codec 2) (Codec 1) ''unary'' (newServer 0)))
   \<and> ''/demo.S/Echo'' \<in> dom (handlers (snd (register ''/demo.S/Echo'' (Bound (UserFn 0)) (Codec 2) (Codec 1) ''unary'' (newServer 0))))
   \<and> snd (register ''/demo.S/Echo'' (Bound (UserFn 5)) (Codec 2) (Codec 1) ''bidi''
        (snd (register ''/demo.S/Echo'' (Bound (UserFn 0)) (Codec 2) (Codec 1) ''unary'' (newServer 0))))
      = snd (register ''/demo.S/Echo'' (Bound (UserFn 0)) (Codec 2) (Codec 1) ''unary'' (newServer 0))"
proof -
  have t: "fst (register ''/demo.S/Echo'' (Bound (UserFn 0)) (Codec 2) (Codec 1) ''unary'' (newServer 0)) = True"
    by (simp add: register_def newServer_def)
  note a = register_no_overwrite
    [of "''/demo.S/Echo''" "Bound (UserFn 0)" "Codec 2" "Codec 1" "''unary''" "newServer 0"
        "Bound (UserFn 5)" "Codec 2" "Codec 1" "''bidi''"]
  note b = register_no_overwrite
    [of "''/demo.S/Echo''" "Bound (UserFn 5)" "Codec 2" "Codec 1" "''bidi''"
        "snd (register ''/demo.S/Echo'' (Bound (UserFn 0)) (Codec 2) (Codec 1) ''unary'' (newServer 0))"]
  from a t have second: "register ''/demo.S/Echo'' (Bound (UserFn 5)) (Codec 2) (Codec 1) ''bidi''
        (snd (register ''/demo.S/Echo'' (Bound (UserFn 0)) (Codec 2) (Codec 1) ''unary'' (newServer 0)))
      = (False, snd (register ''/demo.S/Echo'' (Bound (UserFn 0)) (Codec 2) (Codec 1) ''unary'' (newServer 0)))"
    by blast
  then have f: "fst (register ''/demo.S/Echo'' (Bound (UserFn 5)) (Codec 2) (Codec 1) ''bidi''
        (snd (register ''/demo.S/Echo'' (Bound (UserFn 0)) (Codec 2) (Codec 1) ''unary'' (newServer 0)))) = False"
    by simp
  from b f have "''/demo.S/Echo'' \<in> dom (handlers (snd (register ''/demo.S/Echo'' (Bound (UserFn 0)) (Codec 2) (Codec 1) ''unary'' (newServer 0))))"
    by blast
  moreover from b f have "snd (register ''/demo.S/Echo'' (Bound (UserFn 5)) (Codec 2) (Codec 1) ''bidi''
        (snd (register ''/demo.S/Echo'' (Bound (UserFn 0)) (Codec 2) (Codec 1) ''unary'' (newServer 0))))
      = snd (register ''/demo.S/Echo'' (Bound (UserFn 0)) (Codec 2) (Codec 1) ''unary'' (newServer 0))"
    by blast
  ultimately show ?thesis using t second by blast
qed

text \<open>
  C9. \<^verbatim>\<open>addService\<close> is not atomic. When it throws on a non-empty definition, the definition
  splits into the methods before the offending one, the offending one and the rest; the
  exception names the path of the offending method, which is registered already; the
  server is exactly the one reached by registering the methods before it; and each of
  those methods, absent from the handler map before the call, is in it afterwards.
\<close>

theorem addService_not_atomic:
  assumes "fst (addService (Some svc) (Some impl) s) = Some e" and "svc \<noteq> []"
  shows "\<exists>pre entry rest. svc = pre @ entry # rest
           \<and> e = Error (''Method handler for '' @ m_path (snd entry) @ '' already provided.'')
           \<and> handlers (snd (addService (Some svc) (Some impl) s)) (m_path (snd entry)) \<noteq> None
           \<and> addMethods impl pre s = (None, snd (addService (Some svc) (Some impl) s))
           \<and> (\<forall>m \<in> set pre. handlers s (m_path (snd m)) = None
                 \<and> (\<exists>h. handlers (snd (addService (Some svc) (Some impl) s)) (m_path (snd m)) = Some h
                        \<and> path h = m_path (snd m) \<and> type h = methodType (snd m)))"
proof -
  from assms have "addMethods impl svc s = (Some e, snd (addService (Some svc) (Some impl) s))"
    by (simp add: addService_def prod_eq_iff)
  from addMethods_throws[OF this] obtain pre entry rest where
    p: "svc = pre @ entry # rest"
       "addMethods impl pre s = (None, snd (addService (Some svc) (Some impl) s))"
       "handlers (snd (addService (Some svc) (Some impl) s)) (m_path (snd entry)) \<noteq> None"
       "e = Error (''Method handler for '' @ m_path (snd entry) @ '' already provided.'')"
    by blast
  have "\<forall>m \<in> set pre. handlers s (m_path (snd m)) = None
                 \<and> (\<exists>h. handlers (snd (addService (Some svc) (Some impl) s)) (m_path (snd m)) = Some h
                        \<and> path h = m_path (snd m) \<and> type h = methodType (snd m))"
  proof
    fix m assume "m \<in> set pre"
    from addMethods_registered[OF p(2) this]
    show "handlers s (m_path (snd m)) = None
                 \<and> (\<exists>h. handlers (snd (addService (Some svc) (Some impl) s)) (m_path (snd m)) = Some h
                        \<and> path h = m_path (snd m) \<and> type h = methodType (snd m))"
      by simp
  qed
  with p show ?thesis by blast
qed

theorem addService_not_atomic_witness:
  "fst (addService (Some clashSvc) (Some Map.empty) (newServer 0))
     = Some (Error ''Method handler for /demo.S/Echo already provided.'')
   \<and> clashSvc \<noteq> []
   \<and> handlers (snd (addService (Some clashSvc) (Some Map.empty) (newServer 0))) ''/demo.S/Echo'' \<noteq> None"
proof -
  have a: "fst (addService (Some clashSvc) (Some Map.empty) (newServer 0))
     = Some (Error ''Method handler for /demo.S/Echo already provided.'')"
    by (simp add: addService_def clashSvc_def echoMethod_def addMethod_cases register_def newServer_def)
  have b: "clashSvc \<noteq> []" by (simp add: clashSvc_def)
  from addService_not_atomic[OF a b] obtain pre entry rest where
    "clashSvc = pre @ entry # rest"
    "Error ''Method handler for /demo.S/Echo already provided.''
       = Error (''Method handler for '' @ m_path (snd entry) @ '' already provided.'')"
    "handlers (snd (addService (Some clashSvc) (Some Map.empty) (newServer 0))) (m_path (snd entry)) \<noteq> None"
    by blast
  then have "handlers (snd (addService (Some clashSvc) (Some Map.empty) (newServer 0))) ''/demo.S/Echo'' \<noteq> None"
    by simp
  with a b show ?thesis by blast
qed

text \<open>
  C2 (as amended). When \<^verbatim>\<open>addService\<close> returns, every method of the definition that has no
  implementation under its key, nor under its \<^verbatim>\<open>originalName\<close> when it has one, is registered
  at its path with a default handler. A call of that handler passes to the callback (to
  the \<^verbatim>\<open>error\<close> event, for a method with a response stream) the status \<^verbatim>\<open>UNIMPLEMENTED\<close> with
  details \<^verbatim>\<open>The server does not implement the method\<close> followed by the key of the method in
  the service definition.
\<close>

theorem addService_default_handler:
  assumes "fst (addService (Some svc) (Some impl) s) = None"
    and "(name, attrs) \<in> set svc"
    and "impl name = None"
    and "originalName attrs \<noteq> None \<Longrightarrow> impl (the (originalName attrs)) = None"
  shows "\<exists>h. handlers (snd (addService (Some svc) (Some impl) s)) (m_path attrs) = Some h
           \<and> path h = m_path attrs \<and> type h = methodType attrs
           \<and> invoke (func h) =
               (if responseStream attrs then ErrorEmitted else CallbackCalled)
                 \<lparr> code = CodeStatus UNIMPLEMENTED,
                   details = Some (''The server does not implement the method '' @ name),
                   message = None \<rparr>"
proof -
  from assms(2) have ne: "svc \<noteq> []" by auto
  with assms(1) have run: "addMethods impl svc s = (None, snd (addService (Some svc) (Some impl) s))"
    by (simp add: addService_def prod_eq_iff)
  from assms(3,4) have missing: "implFn impl name attrs = None"
    by (auto simp: implFn_def split: option.splits)
  from addMethods_registered[OF run assms(2)] missing
  show ?thesis
    by (simp add: getUnimplementedStatusResponse_def)
qed

theorem addService_default_handler_witness:
  "fst (addService (Some [(''Echo'', echoMethod\<lparr>originalName := Some ''echo''\<rparr>)]) (Some Map.empty) (newServer 0)) = None
   \<and> originalName (echoMethod\<lparr>originalName := Some ''echo''\<rparr>) \<noteq> None
   \<and> invokeAt (snd (addService (Some [(''Echo'', echoMethod\<lparr>originalName := Some ''echo''\<rparr>)]) (Some Map.empty) (newServer 0)))
         ''/demo.S/Echo''
       = Some (CallbackCalled \<lparr> code = CodeStatus UNIMPLEMENTED,
                 details = Some ''The server does not implement the method Echo'',
                 message = None \<rparr>)"
proof -
  have a: "fst (addService (Some [(''Echo'', echoMethod\<lparr>originalName := Some ''echo''\<rparr>)]) (Some Map.empty) (newServer 0)) = None"
    by (simp add: addService_def echoMethod_def addMethod_cases register_def newServer_def)
  have b: "(''Echo'', echoMethod\<lparr>originalName := Some ''echo''\<rparr>) \<in> set [(''Echo'', echoMethod\<lparr>originalName := Some ''echo''\<rparr>)]"
    by simp
  have c: "(Map.empty :: string \<rightharpoonup> user_fn) ''Echo'' = None" by simp
  have d: "(Map.empty :: string \<rightharpoonup> user_fn) (the (originalName (echoMethod\<lparr>originalName := Some ''echo''\<rparr>))) = None"
    by simp
  have e: "originalName (echoMethod\<lparr>originalName := Some ''echo''\<rparr>) \<noteq> None" by simp
  from addService_default_handler[OF a b c d] have
    "invokeAt (snd (addService (Some [(''Echo'', echoMethod\<lparr>originalName := Some ''echo''\<rparr>)]) (Some Map.empty) (newServer 0)))
         ''/demo.S/Echo''
       = Some (CallbackCalled \<lparr> code = CodeStatus UNIMPLEMENTED,
                 details = Some ''The server does not implement the method Echo'',
                 message = None \<rparr>)"
    by (auto simp: invokeAt_def echoMethod_def)
  with a e show ?thesis by blast
qed

text \<open>
  The claim as it was stated fails: for the key \<^verbatim>\<open>Echo\<close> with path \<^verbatim>\<open>/demo.S/Echo\<close> and no
  implementation, the details the default handler reports end in \<^verbatim>\<open>Echo\<close>, not in the path.
\<close>

theorem addService_default_handler_counterexample:
  "fst (addService (Some demoSvc) (Some Map.empty) (newServer 0)) = None
   \<and> invokeAt (snd (addService (Some demoSvc) (Some Map.empty) (newServer 0))) ''/demo.S/Echo''
       = Some (CallbackCalled \<lparr> code = CodeStatus UNIMPLEMENTED,
                 details = Some ''The server does not implement the method Echo'',
                 message = None \<rparr>)
   \<and> invokeAt (snd (addService (Some demoSvc) (Some Map.empty) (newServer 0))) ''/demo.S/Echo''
       \<noteq> Some (CallbackCalled \<lparr> code = CodeStatus UNIMPLEMENTED,
                 details = Some ''The server does not implement the method /demo.S/Echo'',
                 message = None \<rparr>)"
  by (simp add: addService_def demoSvc_def echoMethod_def addMethod_cases register_def newServer_def
        invokeAt_def implFn_def getUnimplementedStatusResponse_def)
subsection \<open>Shutdown\<close>












lemma startedServer_eval:
  "startedServer =
     \<lparr> http2ServerList = [\<lparr>listening = True, l_channelzRef = Suc 0\<rparr>],
       handlers = Map.empty, sessions = [], started = True, channelzRef = 0,
       callTracker = \<lparr>callsStarted = 0, callsSucceeded = 0, callsFailed = 0\<rparr>,
       shutdownCalls = [], bindCalls = [(''127.0.0.1:0'', 7, False)],
       closedSessions = [], destroyedSessions = [],
       channelzCalls = [RegisterSocket (Suc 0), RefListenerChild (Suc 0)],
       nextChannelzId = Suc (Suc 0),
       listenLog = [ListenTcp ''127.0.0.1'' (Some 0)], logs = [],
       tickQueue = [BindCallback 7 None (Some 50051)], invoked = [],
       pending = [] \<rparr>"
  by (simp add: startedServer_def boundServer_def start_def bindAsync_def newServer_def
      onSuccessfulResolution_def bindSpecificPort_def addListener_def allListen_def Let_def
      bindResultReply_def deferredCallback_def)







lemma outstanding_frame [simp]:
  "outstanding (s\<lparr>shutdownCalls := sc\<rparr>) i = outstanding s i"
  "outstanding (s\<lparr>channelzCalls := cc\<rparr>) i = outstanding s i"
  "outstanding (s\<lparr>invoked := iv\<rparr>) i = outstanding s i"
  "outstanding (s\<lparr>started := st\<rparr>) i = outstanding s i"
  "outstanding (s\<lparr>http2ServerList := hl\<rparr>) i = outstanding s i"
  "outstanding (s\<lparr>closedSessions := cs\<rparr>) i = outstanding s i"
  "outstanding (s\<lparr>sessions := ss\<rparr>) i = outstanding s i"
  "outstanding (s\<lparr>destroyedSessions := ds\<rparr>) i = outstanding s i"
  by (simp_all add: outstanding_def)

lemma wrappedCallback_frame [simp]:
  "pending (wrappedCallback cb s) = pending s"
  "shutdownCalls (wrappedCallback cb s) = shutdownCalls s"
  "outstanding (wrappedCallback cb s) i = outstanding s i"
  by (simp_all add: wrappedCallback_def outstanding_def)

lemma consistent_newServer: "consistent (newServer rid)"
  by (simp add: consistent_def newServer_def shutdownCallbacksInvoked_def)















subsection \<open>Dispatch of a stream\<close>

lemma map_of_onSessionTracker:
  "map_of (sessions (onSessionTracker sid f s)) k =
     (if k = sid
      then map_option (\<lambda>info. info\<lparr>streamTracker := f (streamTracker info)\<rparr>) (map_of (sessions s) k)
      else map_of (sessions s) k)"
proof -
  have "map_of (map (\<lambda>entry. if fst entry = sid
                                 then (fst entry, (snd entry)\<lparr>streamTracker := f (streamTracker (snd entry))\<rparr>)
                                 else entry) xs) k =
     (if k = sid
      then map_option (\<lambda>info. info\<lparr>streamTracker := f (streamTracker info)\<rparr>) (map_of xs k)
      else map_of xs k)" for xs :: "(nat \<times> channelz_session_info) list"
    by (induction xs) auto
  then show ?thesis by (simp add: onSessionTracker_def)
qed

lemma onSessionTracker_other [simp]:
  "callTracker (onSessionTracker sid f s) = callTracker s"
  "handlers (onSessionTracker sid f s) = handlers s"
  "map fst (sessions (onSessionTracker sid f s)) = map fst (sessions s)"
  by (simp_all add: onSessionTracker_def comp_def)

lemma onCallTracker_other [simp]:
  "sessions (onCallTracker f s) = sessions s"
  "handlers (onCallTracker f s) = handlers s"
  "callTracker (onCallTracker f s) = f (callTracker s)"
  by (simp_all add: onCallTracker_def)

lemma sessionCallsFailed_started:
  "sessionCallsFailed (onSessionTracker sid addCallStarted s) k = sessionCallsFailed s k"
  by (cases "map_of (sessions s) k")
     (auto simp: sessionCallsFailed_def map_of_onSessionTracker addCallStarted_def)

lemma sessionCallsFailed_failed:
  "sessionCallsFailed (onSessionTracker sid addCallFailed s) sid = map_option Suc (sessionCallsFailed s sid)"
  by (cases "map_of (sessions s) sid")
     (auto simp: sessionCallsFailed_def map_of_onSessionTracker addCallFailed_def)

lemma sessionCallsFailed_onCallTracker:
  "sessionCallsFailed (onCallTracker f s) k = sessionCallsFailed s k"
  by (simp add: sessionCallsFailed_def)

text \<open>
  C7. A stream whose content-type header is missing, is not a single string, or is a string
  that does not start with \<^verbatim>\<open>application/grpc\<close> is answered with HTTP status 415 and the
  end of the stream, and with nothing else: no handler function runs and no gRPC status is
  sent. The server's \<^verbatim>\<open>callsFailed\<close> grows by one, and so does the \<^verbatim>\<open>callsFailed\<close> of the
  session's stream tracker when the session has a record; nothing is registered or
  removed.
\<close>

theorem bad_content_type_rejected:
  assumes "\<forall>str. contentType req = HeaderString str \<longrightarrow> \<not> startsWith str ''application/grpc''"
  shows "fst (onStream env req s) = [Respond 415 True]
         \<and> \<not> list_ex isHandlerRan (fst (onStream env req s))
         \<and> callsFailed (callTracker (snd (onStream env req s))) = callsFailed (callTracker s) + 1
         \<and> sessionCallsFailed (snd (onStream env req s)) (session req)
             = map_option Suc (sessionCallsFailed s (session req))
         \<and> handlers (snd (onStream env req s)) = handlers s
         \<and> map fst (sessions (snd (onStream env req s))) = map fst (sessions s)"
proof -
  from assms have bad: "\<not> grpcContentType (contentType req)"
    by (cases "contentType req") simp_all
  then have run: "onStream env req s =
     ([Respond 415 True],
      onSessionTracker (session req) addCallFailed (onCallTracker addCallFailed
        (onSessionTracker (session req) addCallStarted (onCallTracker addCallStarted s))))"
    by (simp add: onStream_def Let_def HTTP_STATUS_UNSUPPORTED_MEDIA_TYPE_def)
  show ?thesis
    unfolding run
    by (simp add: sessionCallsFailed_failed sessionCallsFailed_started sessionCallsFailed_onCallTracker
          addCallFailed_def addCallStarted_def)
qed

lemma servingServer_eval:
  "servingServer =
     \<lparr> http2ServerList = [\<lparr>listening = True, l_channelzRef = Suc 0\<rparr>],
       handlers =
         [''/demo.S/Echo'' \<mapsto>
            \<lparr>func = Bound (UserFn 0), serialize = Codec 2, deserialize = Codec (Suc 0),
             type = ''unary'', path = ''/demo.S/Echo''\<rparr>,
          ''/demo.S/Chat'' \<mapsto>
            \<lparr>func = Bound (UserFn (Suc 0)), serialize = Codec 2, deserialize = Codec (Suc 0),
             type = ''bidi'', path = ''/demo.S/Chat''\<rparr>],
       sessions = [(3, \<lparr> ref = Suc (Suc 0),
                          streamTracker = \<lparr>callsStarted = 0, callsSucceeded = 0, callsFailed = 0\<rparr>,
                          messagesSent = 0, messagesReceived = 0 \<rparr>)],
       started = True, channelzRef = 0,
       callTracker = \<lparr>callsStarted = 0, callsSucceeded = 0, callsFailed = 0\<rparr>,
       shutdownCalls = [], bindCalls = [(''127.0.0.1:0'', 7, False)],
       closedSessions = [], destroyedSessions = [],
       channelzCalls = [RegisterSocket (Suc 0), RefListenerChild (Suc 0),
                        RegisterSocket (Suc (Suc 0)), RefSessionChild (Suc (Suc 0))],
       nextChannelzId = Suc (Suc (Suc 0)),
       listenLog = [ListenTcp ''127.0.0.1'' (Some 0)], logs = [],
       tickQueue = [BindCallback 7 None (Some 50051)], invoked = [],
       pending = [] \<rparr>"
  by (simp add: servingServer_def startedServer_eval onSession_def Let_def addService_def
      demoSvc_def chatSvc_def echoMethod_def addMethod_cases register_def implFn_def methodType_def)

theorem bad_content_type_rejected_witness:
  "\<not> startsWith ''application/json'' ''application/grpc''
   \<and> fst (onStream calmEnv jsonRequest servingServer) = [Respond 415 True]
   \<and> callsFailed (callTracker (snd (onStream calmEnv jsonRequest servingServer))) = 1
   \<and> sessionCallsFailed (snd (onStream calmEnv jsonRequest servingServer)) 3 = Some 1"
proof -
  have h: "\<forall>str. contentType jsonRequest = HeaderString str \<longrightarrow> \<not> startsWith str ''application/grpc''"
    by (simp add: jsonRequest_def startsWith_def)
  have n: "\<not> startsWith ''application/json'' ''application/grpc''"
    by (simp add: startsWith_def)
  have c: "callsFailed (callTracker servingServer) = 0" "sessionCallsFailed servingServer 3 = Some 0"
          "session jsonRequest = 3"
    by (simp_all add: servingServer_eval sessionCallsFailed_def jsonRequest_def)
  from bad_content_type_rejected[OF h, of calmEnv servingServer] c n
  show ?thesis by simp
qed

lemma dispatchTry_handlers:
  "handlers s' = handlers s \<Longrightarrow> dispatchTry env p s' = dispatchTry env p s"
  by (simp add: dispatchTry_def)

lemma onStream_throw:
  assumes "grpcContentType (contentType req)"
    and "dispatchTry env (pathHeader req) s = (effects, call, Some err)"
  shows "onStream env req s =
           (effects @ [SendError call (if code err = CodeUndefined then err\<lparr>code := CodeStatus INTERNAL\<rparr> else err)],
            (case call of
               None \<Rightarrow> onSessionTracker (session req) addCallFailed (onCallTracker addCallFailed
                         (onSessionTracker (session req) addCallStarted (onCallTracker addCallStarted s)))
             | Some h \<Rightarrow> onSessionTracker (session req) addCallStarted (onCallTracker addCallStarted s)))"
proof -
  have "dispatchTry env (pathHeader req)
          (onSessionTracker (session req) addCallStarted (onCallTracker addCallStarted s))
        = (effects, call, Some err)"
    using assms(2)
      dispatchTry_handlers[of "onSessionTracker (session req) addCallStarted (onCallTracker addCallStarted s)" s env "pathHeader req"]
    by simp
  then have "onStream env req s =
      (case dispatchCatch (session req) call err
              (onSessionTracker (session req) addCallStarted (onCallTracker addCallStarted s)) of
         (effects', s2) \<Rightarrow> (effects @ effects', s2))"
    using assms(1) by (simp add: onStream_def Let_def)
  then show ?thesis
    by (cases call) (simp_all add: dispatchCatch_def Let_def)
qed


text \<open>
  C5 (as amended). A stream with a gRPC content type whose path has no registered handler
  gets exactly one answer: \<^verbatim>\<open>sendError\<close>, on a call stream built with no handler, of the
  status \<^verbatim>\<open>UNIMPLEMENTED\<close> with details \<^verbatim>\<open>The server does not implement the method\<close>
  followed by the path. No handler function runs; \<^verbatim>\<open>callsFailed\<close> grows by one on the
  server and on the stream tracker of the session (when it has a record). Whatever value
  the dispatch throws is sent with \<^verbatim>\<open>sendError\<close> after the effects so far; its \<^verbatim>\<open>code\<close> is
  set to \<^verbatim>\<open>INTERNAL\<close> when it is \<^verbatim>\<open>undefined\<close>, and is left as it is otherwise.
\<close>

theorem dispatch_errors_sent:
  assumes "grpcContentType (contentType req)"
  shows "(handlers s (pathHeader req) = None \<longrightarrow>
            fst (onStream env req s) =
              [SendError None \<lparr> code = CodeStatus UNIMPLEMENTED,
                   details = Some (''The server does not implement the method '' @ pathHeader req),
                   message = None \<rparr>]
            \<and> \<not> list_ex isHandlerRan (fst (onStream env req s))
            \<and> callsFailed (callTracker (snd (onStream env req s))) = callsFailed (callTracker s) + 1
            \<and> sessionCallsFailed (snd (onStream env req s)) (session req)
                = map_option Suc (sessionCallsFailed s (session req)))
         \<and> (dispatchTry env (pathHeader req) s = (effects, call, Some err) \<longrightarrow>
              fst (onStream env req s) =
                effects @ [SendError call (err\<lparr>code := (if code err = CodeUndefined
                                                          then CodeStatus INTERNAL else code err)\<rparr>)])"
proof (intro conjI impI)
  assume t: "dispatchTry env (pathHeader req) s = (effects, call, Some err)"
  show "fst (onStream env req s) =
                effects @ [SendError call (err\<lparr>code := (if code err = CodeUndefined
                                                          then CodeStatus INTERNAL else code err)\<rparr>)]"
    by (simp add: onStream_throw[OF assms t])
next
  assume none: "handlers s (pathHeader req) = None"
  then have t: "dispatchTry env (pathHeader req) s
                  = ([], None, Some (getUnimplementedStatusResponse (pathHeader req)))"
    by (simp add: dispatchTry_def)
  note run = onStream_throw[OF assms t]
  show "fst (onStream env req s) =
              [SendError None \<lparr> code = CodeStatus UNIMPLEMENTED,
                   details = Some (''The server does not implement the method '' @ pathHeader req),
                   message = None \<rparr>]"
    by (simp add: run getUnimplementedStatusResponse_def)
  then show "\<not> list_ex isHandlerRan (fst (onStream env req s))" by simp
  show "callsFailed (callTracker (snd (onStream env req s))) = callsFailed (callTracker s) + 1"
    by (simp add: run addCallFailed_def addCallStarted_def)
  show "sessionCallsFailed (snd (onStream env req s)) (session req)
                = map_option Suc (sessionCallsFailed s (session req))"
    by (simp add: run sessionCallsFailed_failed sessionCallsFailed_started sessionCallsFailed_onCallTracker)
qed


theorem dispatch_errors_sent_witness:
  "grpcContentType (contentType missingRequest)
   \<and> handlers servingServer (pathHeader missingRequest) = None
   \<and> fst (onStream calmEnv missingRequest servingServer) =
        [SendError None \<lparr> code = CodeStatus UNIMPLEMENTED,
           details = Some ''The server does not implement the method /demo.S/Missing'',
           message = None \<rparr>]
   \<and> callsFailed (callTracker (snd (onStream calmEnv missingRequest servingServer))) = 1
   \<and> sessionCallsFailed (snd (onStream calmEnv missingRequest servingServer)) 3 = Some 1
   \<and> grpcContentType (contentType chatRequest)
   \<and> fst (onStream plainThrowEnv chatRequest servingServer) =
        [HandlerRan (UserCode (UserFn 1)),
         SendError (handlers servingServer ''/demo.S/Chat'')
           \<lparr> code = CodeStatus INTERNAL, details = None, message = Some ''not ready'' \<rparr>]"
proof -
  have g1: "grpcContentType (contentType missingRequest)"
    by (simp add: missingRequest_def startsWith_def)
  have g2: "grpcContentType (contentType chatRequest)"
    by (simp add: chatRequest_def startsWith_def)
  have none: "handlers servingServer (pathHeader missingRequest) = None"
    by (simp add: servingServer_eval missingRequest_def)
  have t: "dispatchTry plainThrowEnv (pathHeader chatRequest) servingServer =
             ([HandlerRan (UserCode (UserFn 1))], handlers servingServer ''/demo.S/Chat'',
              Some \<lparr> code = CodeUndefined, details = None, message = Some ''not ready'' \<rparr>)"
    by (simp add: dispatchTry_def servingServer_eval chatRequest_def plainThrowEnv_def calmEnv_def
          handleBidiStreaming_def runUser_def)
  have c: "callsFailed (callTracker servingServer) = 0" "sessionCallsFailed servingServer 3 = Some 0"
          "session missingRequest = 3" "pathHeader missingRequest = ''/demo.S/Missing''"
    by (simp_all add: servingServer_eval sessionCallsFailed_def missingRequest_def)
  from dispatch_errors_sent[OF g1, of servingServer calmEnv] none c
  have a: "fst (onStream calmEnv missingRequest servingServer) =
        [SendError None \<lparr> code = CodeStatus UNIMPLEMENTED,
           details = Some ''The server does not implement the method /demo.S/Missing'',
           message = None \<rparr>]
     \<and> callsFailed (callTracker (snd (onStream calmEnv missingRequest servingServer))) = 1
     \<and> sessionCallsFailed (snd (onStream calmEnv missingRequest servingServer)) 3 = Some 1"
    by simp
  from dispatch_errors_sent[OF g2, of servingServer plainThrowEnv] t
  have b: "fst (onStream plainThrowEnv chatRequest servingServer) =
        [HandlerRan (UserCode (UserFn 1)),
         SendError (handlers servingServer ''/demo.S/Chat'')
           \<lparr> code = CodeStatus INTERNAL, details = None, message = Some ''not ready'' \<rparr>]"
    by simp
  from g1 g2 none a b show ?thesis by blast
qed

text \<open>
  The claim as it was stated fails for a thrown value whose \<^verbatim>\<open>code\<close> is defined but is not a
  number: the user function of the bidi method throws an error of Node with the string
  code \<^verbatim>\<open>ERR_STREAM_WRITE_AFTER_END\<close>, and that code is sent as it is, not \<^verbatim>\<open>INTERNAL\<close>.
\<close>

theorem dispatch_errors_sent_counterexample:
  "fst (onStream nodeThrowEnv chatRequest servingServer) =
     [HandlerRan (UserCode (UserFn 1)),
      SendError (handlers servingServer ''/demo.S/Chat'')
        \<lparr> code = CodeOther ''ERR_STREAM_WRITE_AFTER_END'', details = None,
          message = Some ''write after end'' \<rparr>]
   \<and> fst (onStream nodeThrowEnv chatRequest servingServer) \<noteq>
     [HandlerRan (UserCode (UserFn 1)),
      SendError (handlers servingServer ''/demo.S/Chat'')
        \<lparr> code = CodeStatus INTERNAL, details = None, message = Some ''write after end'' \<rparr>]"
  by (simp add: onStream_def Let_def dispatchTry_def dispatchCatch_def servingServer_eval
      chatRequest_def nodeThrowEnv_def calmEnv_def handleBidiStreaming_def runUser_def
      startsWith_def onSessionTracker_def onCallTracker_def)
subsection \<open>Binding\<close>

lemma addListener_frame [simp]:
  "tickQueue (addListener s) = tickQueue s"
  "invoked (addListener s) = invoked s"
  "logs (addListener s) = logs s"
  "listenLog (addListener s) = listenLog s"
  "length (http2ServerList (addListener s)) = Suc (length (http2ServerList s))"
  by (simp_all add: addListener_def Let_def)

lemma bindAddress_frame:
  "tickQueue (snd (bindAddress lsn portNum a s)) = tickQueue s"
  "invoked (snd (bindAddress lsn portNum a s)) = invoked s"
  "logs (snd (bindAddress lsn portNum a s)) = logs s"
  "listenLog (snd (bindAddress lsn portNum a s)) = listenLog s @ [specificAddr portNum a]"
  by (simp_all add: bindAddress_def Let_def split: listen_outcome.splits)

lemma bindAddresses_frame:
  "tickQueue (snd (bindAddresses lsn portNum as s)) = tickQueue s
   \<and> invoked (snd (bindAddresses lsn portNum as s)) = invoked s
   \<and> logs (snd (bindAddresses lsn portNum as s)) = logs s
   \<and> listenLog (snd (bindAddresses lsn portNum as s)) = listenLog s @ map (specificAddr portNum) as
   \<and> length (fst (bindAddresses lsn portNum as s)) = length as"
proof (induction as arbitrary: s)
  case Nil
  then show ?case by simp
next
  case (Cons a as)
  obtain r s1 where a: "bindAddress lsn portNum a s = (r, s1)" by (cases "bindAddress lsn portNum a s")
  obtain rs s2 where b: "bindAddresses lsn portNum as s1 = (rs, s2)" by (cases "bindAddresses lsn portNum as s1")
  from bindAddress_frame[of lsn portNum a s] a
  have f1: "tickQueue s1 = tickQueue s" "invoked s1 = invoked s" "logs s1 = logs s"
           "listenLog s1 = listenLog s @ [specificAddr portNum a]" by simp_all
  from Cons.IH[of s1] b f1 show ?case by (simp add: a)
qed

text \<open>The count is the number of sockets that listen, unless a port differs.\<close>

lemma countResults_bounds:
  "countResults rs portNum n = Inr m \<Longrightarrow> n \<le> m \<and> m \<le> n + length rs"
  by (induction rs portNum n arbitrary: m rule: countResults.induct) (auto split: if_splits)

lemma countResults_error:
  "countResults rs portNum n = Inl e \<Longrightarrow>
     e = Error ''Invalid state: multiple port numbers added from single address''"
  by (induction rs portNum n rule: countResults.induct) (auto split: if_splits)

lemma bindSpecificPort_frame:
  "tickQueue (snd (bindSpecificPort lsn as portNum k s)) = tickQueue s
   \<and> invoked (snd (bindSpecificPort lsn as portNum k s)) = invoked s
   \<and> logs (snd (bindSpecificPort lsn as portNum k s)) = logs s
   \<and> listenLog (snd (bindSpecificPort lsn as portNum k s)) = listenLog s @ map (specificAddr portNum) as"
proof (cases as)
  case Nil
  then show ?thesis by (simp add: bindSpecificPort_def)
next
  case (Cons a rest)
  obtain rs s' where b: "bindAddresses lsn portNum as s = (rs, s')" by (cases "bindAddresses lsn portNum as s")
  from bindAddresses_frame[of lsn portNum as s] b
  have "tickQueue s' = tickQueue s" "invoked s' = invoked s" "logs s' = logs s"
       "listenLog s' = listenLog s @ map (specificAddr portNum) as" by simp_all
  with Cons b show ?thesis
    by (auto simp: bindSpecificPort_def split: sum.splits)
qed

lemma bindSpecificPort_result:
  "case fst (bindSpecificPort lsn as portNum k s) of
     Fulfilled r \<Rightarrow> port r = portNum \<and> k \<le> count r \<and> count r \<le> k + length as
   | Rejected e \<Rightarrow> e = Error ''Invalid state: multiple port numbers added from single address''"
proof (cases as)
  case Nil
  then show ?thesis by (simp add: bindSpecificPort_def)
next
  case (Cons a rest)
  obtain rs s' where b: "bindAddresses lsn portNum as s = (rs, s')" by (cases "bindAddresses lsn portNum as s")
  from bindAddresses_frame[of lsn portNum as s] b have len: "length rs = length as" by simp
  show ?thesis
  proof (cases "countResults rs portNum 0")
    case (Inl e)
    with Cons b countResults_error[OF Inl] show ?thesis by (simp add: bindSpecificPort_def)
  next
    case (Inr m)
    with Cons b countResults_bounds[OF Inr] len show ?thesis by (simp add: bindSpecificPort_def)
  qed
qed

lemma bindWildcardPort_frame:
  "tickQueue (snd (bindWildcardPort lsn as s)) = tickQueue s
   \<and> invoked (snd (bindWildcardPort lsn as s)) = invoked s
   \<and> logs (snd (bindWildcardPort lsn as s)) = logs s"
proof (induction as arbitrary: s)
  case Nil
  then show ?case by simp
next
  case (Cons a as)
  show ?case
  proof (cases "lsn (listenLog s) (ownAddr a)")
    case (ListenError msg)
    with Cons.IH[of "s\<lparr>listenLog := listenLog s @ [ownAddr a]\<rparr>"] show ?thesis
      by (simp add: Let_def)
  next
    case (Listening q)
    with bindSpecificPort_frame[where lsn=lsn and as=as and k=1
           and portNum="case ownAddr a of ListenTcp h q' \<Rightarrow> Some q | ListenPath pipe \<Rightarrow> None"
           and s="addListener (s\<lparr>listenLog := listenLog s @ [ownAddr a]\<rparr>)"]
    show ?thesis by (simp add: Let_def)
  qed
qed

lemma bindWildcardPort_result:
  "case fst (bindWildcardPort lsn as s) of
     Fulfilled r \<Rightarrow> count r \<le> length as
   | Rejected e \<Rightarrow> e = Error ''Invalid state: multiple port numbers added from single address''"
proof (induction as arbitrary: s)
  case Nil
  then show ?case by simp
next
  case (Cons a as)
  show ?case
  proof (cases "lsn (listenLog s) (ownAddr a)")
    case (ListenError msg)
    with Cons.IH[of "s\<lparr>listenLog := listenLog s @ [ownAddr a]\<rparr>"] show ?thesis
      by (auto simp: Let_def split: bind_promise.splits)
  next
    case (Listening q)
    with bindSpecificPort_result[where lsn=lsn and as=as and k=1
           and portNum="case ownAddr a of ListenTcp h q' \<Rightarrow> Some q | ListenPath pipe \<Rightarrow> None"
           and s="addListener (s\<lparr>listenLog := listenLog s @ [ownAddr a]\<rparr>)"]
    show ?thesis by (auto simp: Let_def split: bind_promise.splits)
  qed
qed






lemma string_of_nat_digits:
  "string_of_nat 0 = ''0''" "string_of_nat 1 = ''1''" "string_of_nat 2 = ''2''" "string_of_nat 3 = ''3''"
  "string_of_nat 12 = ''12''"
  by (simp_all add: string_of_nat.simps decimalDigit_def)

lemma bindResultReply_frame:
  "invoked (bindResultReply cb n promise s) = invoked s"
  "\<exists>err p. tickQueue (bindResultReply cb n promise s) = tickQueue s @ [BindCallback cb err p]"
  by (cases promise; simp add: bindResultReply_def Let_def deferredCallback_def)+

lemma onSuccessfulResolution_reply:
  "addressList \<noteq> [] \<Longrightarrow>
     \<exists>promise s'. onSuccessfulResolution lsn portStr cb addressList s
                    = bindResultReply cb (length addressList) promise s'
        \<and> tickQueue s' = tickQueue s \<and> invoked s' = invoked s \<and> logs s' = logs s
        \<and> (case promise of Fulfilled r \<Rightarrow> count r \<le> length addressList | Rejected e \<Rightarrow> True)"
proof -
  assume "addressList \<noteq> []"
  then obtain first rest where l: "addressList = first # rest" by (cases addressList) auto
  define bound where "bound =
     (case first of
        TcpSubchannelAddress h p \<Rightarrow>
          if p = 0 then bindWildcardPort lsn addressList s
          else bindSpecificPort lsn addressList (Some p) 0 s
      | IpcSubchannelAddress pipe \<Rightarrow> bindSpecificPort lsn addressList (Some 1) 0 s)"
  have eq: "onSuccessfulResolution lsn portStr cb addressList s
              = bindResultReply cb (length addressList) (fst bound) (snd bound)"
    unfolding bound_def onSuccessfulResolution_def l
    by (simp add: split_beta del: bindWildcardPort.simps)
  have fr: "tickQueue (snd bound) = tickQueue s \<and> invoked (snd bound) = invoked s \<and> logs (snd bound) = logs s"
    unfolding bound_def
    using bindWildcardPort_frame[of lsn addressList s] bindSpecificPort_frame[of lsn addressList _ 0 s]
    by (auto split: subchannel_address.splits)
  have cnt: "case fst bound of Fulfilled r \<Rightarrow> count r \<le> length addressList | Rejected e \<Rightarrow> True"
  proof (cases first)
    case (TcpSubchannelAddress h p)
    show ?thesis
    proof (cases "p = 0")
      case True
      with TcpSubchannelAddress bindWildcardPort_result[where lsn=lsn and as=addressList and s=s] show ?thesis
        by (auto simp: bound_def split: bind_promise.splits)
    next
      case False
      with TcpSubchannelAddress
        bindSpecificPort_result[where lsn=lsn and as=addressList and portNum="Some p" and k=0 and s=s]
      show ?thesis
        by (auto simp: bound_def split: bind_promise.splits)
    qed
  next
    case (IpcSubchannelAddress pipe)
    with bindSpecificPort_result[where lsn=lsn and as=addressList and portNum="Some 1" and k=0 and s=s]
    show ?thesis
      by (auto simp: bound_def split: bind_promise.splits)
  qed
  from eq fr cnt show ?thesis by blast
qed

text \<open>
  C4. The reply to the aggregate of a bind over \<open>n\<close> resolved addresses. With count 0 the
  error \<^verbatim>\<open>No address added out of total n resolved\<close> is logged and is given, with port 0, to
  the deferred callback. With a count above 0 and below \<open>n\<close> the callback gets no error and
  the port of the aggregate, and one informational line records the partial binding. With
  count \<open>n\<close> the callback gets no error and the port, and nothing is logged. An empty
  address list gives the callback the error \<^verbatim>\<open>No addresses resolved for port\<close> followed by
  the port string, with port 0. For a list that is not empty, the reply is this one, with
  \<open>n\<close> the length of the list, and the count of a fulfilled bind is at most \<open>n\<close>.
\<close>

theorem bind_reply_policy:
  "(count r = 0 \<longrightarrow>
      bindResultReply cb n (Fulfilled r) s =
        s\<lparr> logs := logs s @ [(ERROR, ''No address added out of total '' @ string_of_nat n @ '' resolved'')],
           tickQueue := tickQueue s @
             [BindCallback cb (Some (Error (''No address added out of total '' @ string_of_nat n @ '' resolved'')))
                (Some 0)] \<rparr>)
   \<and> (0 < count r \<and> count r < n \<longrightarrow>
      bindResultReply cb n (Fulfilled r) s =
        s\<lparr> logs := logs s @ [(INFO, ''WARNING Only '' @ string_of_nat (count r)
                                     @ '' addresses added out of total '' @ string_of_nat n @ '' resolved'')],
           tickQueue := tickQueue s @ [BindCallback cb None (port r)] \<rparr>)
   \<and> (0 < count r \<and> count r = n \<longrightarrow>
      bindResultReply cb n (Fulfilled r) s =
        s\<lparr> tickQueue := tickQueue s @ [BindCallback cb None (port r)] \<rparr>)
   \<and> onSuccessfulResolution lsn portStr cb [] s =
        s\<lparr> tickQueue := tickQueue s @
             [BindCallback cb (Some (Error (''No addresses resolved for port '' @ portStr))) (Some 0)] \<rparr>
   \<and> (addressList \<noteq> [] \<longrightarrow>
        (\<exists>promise s'. onSuccessfulResolution lsn portStr cb addressList s
                         = bindResultReply cb (length addressList) promise s'
            \<and> tickQueue s' = tickQueue s \<and> logs s' = logs s
            \<and> (case promise of Fulfilled r' \<Rightarrow> count r' \<le> length addressList | Rejected e \<Rightarrow> True)))"
proof (intro conjI impI)
  assume "count r = 0"
  then show "bindResultReply cb n (Fulfilled r) s =
        s\<lparr> logs := logs s @ [(ERROR, ''No address added out of total '' @ string_of_nat n @ '' resolved'')],
           tickQueue := tickQueue s @
             [BindCallback cb (Some (Error (''No address added out of total '' @ string_of_nat n @ '' resolved'')))
                (Some 0)] \<rparr>"
    by (simp add: bindResultReply_def Let_def deferredCallback_def)
next
  assume "0 < count r \<and> count r < n"
  then show "bindResultReply cb n (Fulfilled r) s =
        s\<lparr> logs := logs s @ [(INFO, ''WARNING Only '' @ string_of_nat (count r)
                                     @ '' addresses added out of total '' @ string_of_nat n @ '' resolved'')],
           tickQueue := tickQueue s @ [BindCallback cb None (port r)] \<rparr>"
    by (simp add: bindResultReply_def Let_def deferredCallback_def)
next
  assume "0 < count r \<and> count r = n"
  then show "bindResultReply cb n (Fulfilled r) s =
        s\<lparr> tickQueue := tickQueue s @ [BindCallback cb None (port r)] \<rparr>"
    by (simp add: bindResultReply_def Let_def deferredCallback_def)
next
  show "onSuccessfulResolution lsn portStr cb [] s =
        s\<lparr> tickQueue := tickQueue s @
             [BindCallback cb (Some (Error (''No addresses resolved for port '' @ portStr))) (Some 0)] \<rparr>"
    by (simp add: onSuccessfulResolution_def deferredCallback_def)
next
  assume "addressList \<noteq> []"
  from onSuccessfulResolution_reply[OF this, of lsn portStr cb s]
  show "\<exists>promise s'. onSuccessfulResolution lsn portStr cb addressList s
                         = bindResultReply cb (length addressList) promise s'
            \<and> tickQueue s' = tickQueue s \<and> logs s' = logs s
            \<and> (case promise of Fulfilled r' \<Rightarrow> count r' \<le> length addressList | Rejected e \<Rightarrow> True)"
    by blast
qed


lemma partial_bind_eval:
  "tickQueue (onSuccessfulResolution loopbackListens ''localhost:0'' 7
      [TcpSubchannelAddress ''127.0.0.1'' 0, TcpSubchannelAddress ''10.0.0.1'' 0] (newServer 0))
     = [BindCallback 7 None (Some 50051)]"
  "logs (onSuccessfulResolution loopbackListens ''localhost:0'' 7
      [TcpSubchannelAddress ''127.0.0.1'' 0, TcpSubchannelAddress ''10.0.0.1'' 0] (newServer 0))
     = [(INFO, ''WARNING Only 1 addresses added out of total 2 resolved'')]"
  "length (http2ServerList (onSuccessfulResolution loopbackListens ''localhost:0'' 7
      [TcpSubchannelAddress ''127.0.0.1'' 0, TcpSubchannelAddress ''10.0.0.1'' 0] (newServer 0))) = 1"
  by (simp_all add: onSuccessfulResolution_def Let_def loopbackListens_def newServer_def
      bindSpecificPort_def bindAddress_def addListener_def bindResultReply_def deferredCallback_def
      string_of_nat.simps decimalDigit_def)

theorem bind_reply_policy_witness:
  "tickQueue (bindResultReply 7 2 (Fulfilled \<lparr> port = Some 0, count = 0 \<rparr>) (newServer 0))
     = [BindCallback 7 (Some (Error ''No address added out of total 2 resolved'')) (Some 0)]
   \<and> tickQueue (bindResultReply 7 2 (Fulfilled \<lparr> port = Some 50051, count = 1 \<rparr>) (newServer 0))
     = [BindCallback 7 None (Some 50051)]
   \<and> logs (bindResultReply 7 2 (Fulfilled \<lparr> port = Some 50051, count = 1 \<rparr>) (newServer 0))
     = [(INFO, ''WARNING Only 1 addresses added out of total 2 resolved'')]
   \<and> tickQueue (bindResultReply 7 2 (Fulfilled \<lparr> port = Some 50051, count = 2 \<rparr>) (newServer 0))
     = [BindCallback 7 None (Some 50051)]
   \<and> logs (bindResultReply 7 2 (Fulfilled \<lparr> port = Some 50051, count = 2 \<rparr>) (newServer 0)) = []
   \<and> [TcpSubchannelAddress ''127.0.0.1'' 0, TcpSubchannelAddress ''10.0.0.1'' 0] \<noteq> []
   \<and> length (tickQueue (onSuccessfulResolution loopbackListens ''localhost:0'' 7
        [TcpSubchannelAddress ''127.0.0.1'' 0, TcpSubchannelAddress ''10.0.0.1'' 0] (newServer 0))) = 1"
proof -
  note w = bind_reply_policy[where cb=7 and n=2 and s="newServer 0" and lsn=loopbackListens
      and portStr="''localhost:0''"
      and addressList="[TcpSubchannelAddress ''127.0.0.1'' 0, TcpSubchannelAddress ''10.0.0.1'' 0]"]
  have c0: "count \<lparr> port = Some 0, count = 0 \<rparr> = 0" by simp
  have c1: "0 < count \<lparr> port = Some 50051, count = 1 \<rparr> \<and> count \<lparr> port = Some 50051, count = 1 \<rparr> < 2"
    by simp
  have c2: "0 < count \<lparr> port = Some 50051, count = 2 \<rparr> \<and> count \<lparr> port = Some 50051, count = 2 \<rparr> = 2"
    by simp
  have ne: "[TcpSubchannelAddress ''127.0.0.1'' 0, TcpSubchannelAddress ''10.0.0.1'' 0] \<noteq> []" by simp
  from w[where r="\<lparr> port = Some 0, count = 0 \<rparr>"] c0
  have r0: "bindResultReply 7 2 (Fulfilled \<lparr> port = Some 0, count = 0 \<rparr>) (newServer 0) =
      (newServer 0)\<lparr> logs := logs (newServer 0) @ [(ERROR, ''No address added out of total '' @ string_of_nat 2 @ '' resolved'')],
           tickQueue := tickQueue (newServer 0) @
             [BindCallback 7 (Some (Error (''No address added out of total '' @ string_of_nat 2 @ '' resolved'')))
                (Some 0)] \<rparr>"
    by blast
  from w[where r="\<lparr> port = Some 50051, count = 1 \<rparr>"] c1
  have r1: "bindResultReply 7 2 (Fulfilled \<lparr> port = Some 50051, count = 1 \<rparr>) (newServer 0) =
      (newServer 0)\<lparr> logs := logs (newServer 0) @ [(INFO, ''WARNING Only '' @ string_of_nat (count \<lparr> port = Some 50051, count = 1 \<rparr>)
                                     @ '' addresses added out of total '' @ string_of_nat 2 @ '' resolved'')],
           tickQueue := tickQueue (newServer 0) @ [BindCallback 7 None (port \<lparr> port = Some 50051, count = 1 \<rparr>)] \<rparr>"
    by blast
  from w[where r="\<lparr> port = Some 50051, count = 2 \<rparr>"] c2
  have r2: "bindResultReply 7 2 (Fulfilled \<lparr> port = Some 50051, count = 2 \<rparr>) (newServer 0) =
      (newServer 0)\<lparr> tickQueue := tickQueue (newServer 0) @ [BindCallback 7 None (port \<lparr> port = Some 50051, count = 2 \<rparr>)] \<rparr>"
    by blast
  from w ne obtain promise s' where
    "onSuccessfulResolution loopbackListens ''localhost:0'' 7
        [TcpSubchannelAddress ''127.0.0.1'' 0, TcpSubchannelAddress ''10.0.0.1'' 0] (newServer 0)
       = bindResultReply 7 (length [TcpSubchannelAddress ''127.0.0.1'' 0, TcpSubchannelAddress ''10.0.0.1'' 0]) promise s'"
    "tickQueue s' = tickQueue (newServer 0)"
    by blast
  with bindResultReply_frame(2)[of 7 "length [TcpSubchannelAddress ''127.0.0.1'' 0, TcpSubchannelAddress ''10.0.0.1'' 0]" promise s']
  have r3: "length (tickQueue (onSuccessfulResolution loopbackListens ''localhost:0'' 7
        [TcpSubchannelAddress ''127.0.0.1'' 0, TcpSubchannelAddress ''10.0.0.1'' 0] (newServer 0))) = 1"
    by (auto simp: newServer_def)
  show ?thesis
    unfolding r0 r1 r2 using r3
    by (simp add: newServer_def string_of_nat.simps decimalDigit_def)
qed

lemma bindAsync_frame:
  "invoked (snd (bindAsync parseUri mapUri portA creds cbA s)) = invoked s"
  "tickQueue (snd (bindAsync parseUri mapUri portA creds cbA s)) = tickQueue s"
  "http2ServerList (snd (bindAsync parseUri mapUri portA creds cbA s)) = http2ServerList s"
  by (simp_all add: bindAsync_def
        split: port_arg.splits creds_arg.splits callback_arg.splits option.splits)

lemma onSuccessfulResolution_frame:
  "invoked (onSuccessfulResolution lsn portStr cb addressList s) = invoked s"
  "\<exists>err p. tickQueue (onSuccessfulResolution lsn portStr cb addressList s)
             = tickQueue s @ [BindCallback cb err p]"
proof -
  show "invoked (onSuccessfulResolution lsn portStr cb addressList s) = invoked s"
  proof (cases "addressList = []")
    case True
    then show ?thesis by (simp add: onSuccessfulResolution_def deferredCallback_def)
  next
    case False
    from onSuccessfulResolution_reply[OF False, of lsn portStr cb s] bindResultReply_frame(1)
    show ?thesis by auto
  qed
  show "\<exists>err p. tickQueue (onSuccessfulResolution lsn portStr cb addressList s)
             = tickQueue s @ [BindCallback cb err p]"
  proof (cases "addressList = []")
    case True
    then show ?thesis by (simp add: onSuccessfulResolution_def deferredCallback_def)
  next
    case False
    from onSuccessfulResolution_reply[OF False, of lsn portStr cb s]
    obtain promise s' where
      e: "onSuccessfulResolution lsn portStr cb addressList s
            = bindResultReply cb (length addressList) promise s'"
      and t: "tickQueue s' = tickQueue s" by blast
    from bindResultReply_frame(2)[of cb "length addressList" promise s'] e t
    show ?thesis by simp
  qed
qed

lemma bindStep_invoked:
  "e \<noteq> Tick \<Longrightarrow> invoked (bindStep lsn e s) = invoked s"
proof (cases e)
  case (Resolved i addressList)
  show ?thesis
  proof (cases "i < length (bindCalls s)")
    case False
    with Resolved show ?thesis by simp
  next
    case True
    obtain portStr cb live where b: "bindCalls s ! i = (portStr, cb, live)"
      by (cases "bindCalls s ! i") auto
    with True Resolved
      onSuccessfulResolution_frame(1)[of lsn portStr cb addressList
        "s\<lparr>bindCalls := (bindCalls s)[i := (portStr, cb, False)]\<rparr>"]
    show ?thesis by simp
  qed
next
  case (ResolveFailed i d)
  then show ?thesis by (simp add: onError_def deferredCallback_def split: prod.splits)
next
  case Tick
  assume "e \<noteq> Tick"
  with Tick show ?thesis by simp
qed

lemma bindRun_invoked:
  "Tick \<notin> set evs \<Longrightarrow> invoked (fold (bindStep lsn) evs s) = invoked s"
proof (induction evs arbitrary: s)
  case Nil
  then show ?case by simp
next
  case (Cons e evs)
  then have "e \<noteq> Tick" "Tick \<notin> set evs" by auto
  from Cons.IH[OF this(2), of "bindStep lsn e s"] bindStep_invoked[OF this(1), of lsn s]
  show ?case by simp
qed

text \<open>
  C8. \<^verbatim>\<open>bindAsync\<close> on a started server throws \<^verbatim>\<open>server is already started\<close> at once,
  whatever its arguments, and leaves the server as it is. The user callback is never run
  by \<^verbatim>\<open>bindAsync\<close> itself nor by the answers of the resolver: \<^verbatim>\<open>bindAsync\<close> leaves the
  callbacks that have run and the \<^verbatim>\<open>process.nextTick\<close> queue as they are; over any events
  other than a turn of the event loop, the callbacks that have run stay the same; the first
  successful resolution of a bind call, and each resolution error, adds one call of its
  user callback to the \<^verbatim>\<open>process.nextTick\<close> queue; the callbacks of the queue run at the next
  turn.
\<close>

theorem bind_callback_deferred:
  "(started s \<longrightarrow>
      bindAsync parseUri mapUri portA creds cbA s = (Some (Error ''server is already started''), s))
   \<and> invoked (snd (bindAsync parseUri mapUri portA creds cbA s)) = invoked s
   \<and> tickQueue (snd (bindAsync parseUri mapUri portA creds cbA s)) = tickQueue s
   \<and> (Tick \<notin> set evs \<longrightarrow> invoked (fold (bindStep lsn) evs s) = invoked s)
   \<and> (i < length (bindCalls s) \<and> bindCalls s ! i = (portStr, cb, True) \<longrightarrow>
        (\<exists>err p. tickQueue (bindStep lsn (Resolved i addressList) s)
                    = tickQueue s @ [BindCallback cb err p]))
   \<and> (i < length (bindCalls s) \<and> bindCalls s ! i = (portStr, cb, live) \<longrightarrow>
        tickQueue (bindStep lsn (ResolveFailed i d) s)
          = tickQueue s @ [BindCallback cb (Some (Error d)) (Some 0)])
   \<and> invoked (bindStep lsn Tick s) = invoked s @ tickQueue s
   \<and> tickQueue (bindStep lsn Tick s) = []"
proof (intro conjI impI)
  assume "started s"
  then show "bindAsync parseUri mapUri portA creds cbA s = (Some (Error ''server is already started''), s)"
    by (simp add: bindAsync_def)
next
  show "invoked (snd (bindAsync parseUri mapUri portA creds cbA s)) = invoked s"
    by (rule bindAsync_frame)
  show "tickQueue (snd (bindAsync parseUri mapUri portA creds cbA s)) = tickQueue s"
    by (rule bindAsync_frame)
next
  assume "Tick \<notin> set evs"
  then show "invoked (fold (bindStep lsn) evs s) = invoked s" by (rule bindRun_invoked)
next
  assume a: "i < length (bindCalls s) \<and> bindCalls s ! i = (portStr, cb, True)"
  from onSuccessfulResolution_frame(2)[of lsn portStr cb addressList
        "s\<lparr>bindCalls := (bindCalls s)[i := (portStr, cb, False)]\<rparr>"] a
  show "\<exists>err p. tickQueue (bindStep lsn (Resolved i addressList) s)
                    = tickQueue s @ [BindCallback cb err p]"
    by simp
next
  assume "i < length (bindCalls s) \<and> bindCalls s ! i = (portStr, cb, live)"
  then show "tickQueue (bindStep lsn (ResolveFailed i d) s)
          = tickQueue s @ [BindCallback cb (Some (Error d)) (Some 0)]"
    by (simp add: onError_def deferredCallback_def)
next
  show "invoked (bindStep lsn Tick s) = invoked s @ tickQueue s" by simp
  show "tickQueue (bindStep lsn Tick s) = []" by simp
qed


theorem bind_callback_deferred_witness:
  "started startedServer
   \<and> bindAsync Some Some (PortString ''0.0.0.0:50052'') (Credentials False) (CallbackFunction 8) startedServer
       = (Some (Error ''server is already started''), startedServer)
   \<and> Tick \<notin> set [Resolved 0 [TcpSubchannelAddress ''127.0.0.1'' 0], ResolveFailed 0 ''late'']
   \<and> invoked (fold (bindStep allListen)
         [Resolved 0 [TcpSubchannelAddress ''127.0.0.1'' 0], ResolveFailed 0 ''late'']
         ((newServer 0)\<lparr>bindCalls := [(''127.0.0.1:0'', 7, True)]\<rparr>)) = []
   \<and> tickQueue (bindStep allListen (ResolveFailed 0 ''no such host'')
         ((newServer 0)\<lparr>bindCalls := [(''127.0.0.1:0'', 7, True)]\<rparr>))
       = [BindCallback 7 (Some (Error ''no such host'')) (Some 0)]
   \<and> length (tickQueue (bindStep allListen (Resolved 0 [TcpSubchannelAddress ''127.0.0.1'' 0])
         ((newServer 0)\<lparr>bindCalls := [(''127.0.0.1:0'', 7, True)]\<rparr>))) = 1"
proof -
  have st: "started startedServer" by (simp add: startedServer_eval)
  have nt: "Tick \<notin> set [Resolved 0 [TcpSubchannelAddress ''127.0.0.1'' 0], ResolveFailed 0 ''late'']"
    by simp
  have live: "0 < length (bindCalls ((newServer 0)\<lparr>bindCalls := [(''127.0.0.1:0'', 7, True)]\<rparr>))
      \<and> bindCalls ((newServer 0)\<lparr>bindCalls := [(''127.0.0.1:0'', 7, True)]\<rparr>) ! 0 = (''127.0.0.1:0'', 7, True)"
    by simp
  have e: "invoked ((newServer 0)\<lparr>bindCalls := [(''127.0.0.1:0'', 7, True)]\<rparr>) = []"
          "tickQueue ((newServer 0)\<lparr>bindCalls := [(''127.0.0.1:0'', 7, True)]\<rparr>) = []"
    by (simp_all add: newServer_def)
  note w1 = bind_callback_deferred[where s=startedServer and parseUri=Some and mapUri=Some
      and portA="PortString ''0.0.0.0:50052''" and creds="Credentials False" and cbA="CallbackFunction 8"]
  note w2 = bind_callback_deferred[where s="(newServer 0)\<lparr>bindCalls := [(''127.0.0.1:0'', 7, True)]\<rparr>"
      and lsn=allListen and i=0 and portStr="''127.0.0.1:0''" and cb=7 and live=True
      and evs="[Resolved 0 [TcpSubchannelAddress ''127.0.0.1'' 0], ResolveFailed 0 ''late'']"
      and addressList="[TcpSubchannelAddress ''127.0.0.1'' 0]" and d="''no such host''"]
  from w1 st have a: "bindAsync Some Some (PortString ''0.0.0.0:50052'') (Credentials False) (CallbackFunction 8) startedServer
       = (Some (Error ''server is already started''), startedServer)"
    by blast
  from w2 nt have b0: "invoked (fold (bindStep allListen)
         [Resolved 0 [TcpSubchannelAddress ''127.0.0.1'' 0], ResolveFailed 0 ''late'']
         ((newServer 0)\<lparr>bindCalls := [(''127.0.0.1:0'', 7, True)]\<rparr>))
       = invoked ((newServer 0)\<lparr>bindCalls := [(''127.0.0.1:0'', 7, True)]\<rparr>)"
    by blast
  note b = trans[OF b0 e(1)]
  from w2 live have c0: "tickQueue (bindStep allListen (ResolveFailed 0 ''no such host'')
         ((newServer 0)\<lparr>bindCalls := [(''127.0.0.1:0'', 7, True)]\<rparr>))
       = tickQueue ((newServer 0)\<lparr>bindCalls := [(''127.0.0.1:0'', 7, True)]\<rparr>)
           @ [BindCallback 7 (Some (Error ''no such host'')) (Some 0)]"
    by blast
  then have c: "tickQueue (bindStep allListen (ResolveFailed 0 ''no such host'')
         ((newServer 0)\<lparr>bindCalls := [(''127.0.0.1:0'', 7, True)]\<rparr>))
       = [BindCallback 7 (Some (Error ''no such host'')) (Some 0)]"
    unfolding e(2) by simp
  from w2 live obtain err p where "tickQueue (bindStep allListen (Resolved 0 [TcpSubchannelAddress ''127.0.0.1'' 0])
         ((newServer 0)\<lparr>bindCalls := [(''127.0.0.1:0'', 7, True)]\<rparr>))
       = tickQueue ((newServer 0)\<lparr>bindCalls := [(''127.0.0.1:0'', 7, True)]\<rparr>) @ [BindCallback 7 err p]"
    by blast
  then have d: "length (tickQueue (bindStep allListen (Resolved 0 [TcpSubchannelAddress ''127.0.0.1'' 0])
         ((newServer 0)\<lparr>bindCalls := [(''127.0.0.1:0'', 7, True)]\<rparr>))) = 1"
    unfolding e(2) by simp
  from st a nt b c d show ?thesis by blast
qed

text \<open>
  C10 (as amended). On a server that is not started, \<^verbatim>\<open>bindAsync\<close> checks its arguments
  in the order port, credentials, callback and throws at the first check that fails: the
  \<^verbatim>\<open>TypeError\<close> \<^verbatim>\<open>port must be a string\<close> when the port is not a string; otherwise
  \<^verbatim>\<open>creds must be a ServerCredentials object\<close> when the credentials are \<^verbatim>\<open>null\<close> or not
  a \<^verbatim>\<open>ServerCredentials\<close>; otherwise \<^verbatim>\<open>callback must be a function\<close> when the callback
  is not a function. In each case the server is left exactly as it was: no callback is
  queued or run and no socket is created or asked to listen.
\<close>

theorem bindAsync_argument_checks:
  assumes "\<not> started s"
  shows "bindAsync parseUri mapUri PortNotString creds cbA s
           = (Some (TypeError ''port must be a string''), s)
         \<and> (creds = CredsNull \<or> creds = CredsNotInstance \<longrightarrow>
              bindAsync parseUri mapUri (PortString p) creds cbA s
                = (Some (TypeError ''creds must be a ServerCredentials object''), s))
         \<and> bindAsync parseUri mapUri (PortString p) (Credentials secure) CallbackNotFunction s
              = (Some (TypeError ''callback must be a function''), s)"
  using assms by (auto simp: bindAsync_def)

theorem bindAsync_argument_checks_witness:
  "\<not> started (newServer 0)
   \<and> bindAsync Some Some PortNotString CredsNull CallbackNotFunction (newServer 0)
       = (Some (TypeError ''port must be a string''), newServer 0)
   \<and> bindAsync Some Some (PortString ''0.0.0.0:50051'') CredsNotInstance (CallbackFunction 7) (newServer 0)
       = (Some (TypeError ''creds must be a ServerCredentials object''), newServer 0)
   \<and> bindAsync Some Some (PortString ''0.0.0.0:50051'') (Credentials True) CallbackNotFunction (newServer 0)
       = (Some (TypeError ''callback must be a function''), newServer 0)"
proof -
  have n: "\<not> started (newServer 0)" by (simp add: newServer_def)
  note w = bindAsync_argument_checks[OF n, where parseUri=Some and mapUri=Some]
  from w[where creds=CredsNull and cbA=CallbackNotFunction]
  have a: "bindAsync Some Some PortNotString CredsNull CallbackNotFunction (newServer 0)
       = (Some (TypeError ''port must be a string''), newServer 0)" by blast
  from w[where creds=CredsNotInstance and cbA="CallbackFunction 7" and p="''0.0.0.0:50051''"]
  have b: "bindAsync Some Some (PortString ''0.0.0.0:50051'') CredsNotInstance (CallbackFunction 7) (newServer 0)
       = (Some (TypeError ''creds must be a ServerCredentials object''), newServer 0)" by blast
  from w[where p="''0.0.0.0:50051''" and secure=True]
  have c: "bindAsync Some Some (PortString ''0.0.0.0:50051'') (Credentials True) CallbackNotFunction (newServer 0)
       = (Some (TypeError ''callback must be a function''), newServer 0)" by blast
  from n a b c show ?thesis by blast
qed

text \<open>
  The claim as it was stated fails in two ways. On a started server a port that is not a
  string gives \<^verbatim>\<open>server is already started\<close>, which is no \<^verbatim>\<open>TypeError\<close>. And a callback that
  is not a function, together with a port that is not a string, gives the error about the
  port.
\<close>

theorem bindAsync_argument_checks_counterexample:
  "fst (bindAsync Some Some PortNotString CredsNull CallbackNotFunction startedServer)
     = Some (Error ''server is already started'')
   \<and> fst (bindAsync Some Some PortNotString CredsNull CallbackNotFunction startedServer)
     \<noteq> Some (TypeError ''port must be a string'')
   \<and> fst (bindAsync Some Some PortNotString (Credentials False) CallbackNotFunction (newServer 0))
     = Some (TypeError ''port must be a string'')
   \<and> fst (bindAsync Some Some PortNotString (Credentials False) CallbackNotFunction (newServer 0))
     \<noteq> Some (TypeError ''callback must be a function'')"
  by (simp add: bindAsync_def startedServer_eval newServer_def)

end
